theory Spec2Isabelle
  imports Complex_Main "HOL-Library.Char_ord" "HOL-Library.List_Lexorder"
    "HOL-Library.Product_Lexorder" "HOL-Library.Sublist" "HOL-Library.Log_Nat"
begin

section \<open>Data model (db/schema.sql, db/queries.ts)\<close>

text \<open>
  The tables of \<^verbatim>\<open>schema.sql\<close> are lists of rows. A nullable column and an optional
  JavaScript argument are both \<open>option\<close> values: \<open>None\<close> is SQL \<^verbatim>\<open>NULL\<close> and
  JavaScript \<^verbatim>\<open>undefined\<close>/\<^verbatim>\<open>null\<close>. Dates and times are the strings the tool schema
  asks for (\<^verbatim>\<open>YYYY-MM-DD\<close>, \<^verbatim>\<open>HH:MM\<close>); two of them are equal when the strings are.
  \<^verbatim>\<open>CURRENT_TIMESTAMP\<close> is an input of every query, the time of the call.
\<close>

datatype status = Confirmed | Cancelled | Completed

type_synonym timestamp = nat

record user =
  u_contact_number :: string
  u_name :: "string option"
  u_email :: "string option"
  u_created_at :: timestamp
  u_updated_at :: timestamp

record appointment =
  a_id :: nat
  a_contact_number :: string
  appointment_date :: string
  appointment_time :: string
  service_type :: "string option"
  a_notes :: "string option"
  a_status :: status
  a_created_at :: timestamp
  a_updated_at :: timestamp

text \<open>
  A JavaScript \<^verbatim>\<open>number\<close> is an IEEE 754 double: a rational with a 53-bit significand
  and an exponent between \<open>-1074\<close> and \<open>971\<close>, an infinity, or NaN. The two zeros are
  one value here; they differ only as divisors, and no divisor in this program is zero.
  \<open>double r\<close> rounds a rational to the nearest double, ties to the even significand,
  and to an infinity from \<open>2^1024 - 2^970\<close> on; it is how a decimal literal is read and
  how every arithmetic result is rounded.
\<close>

datatype number = Finite rat | PosInfinity | NegInfinity | NaN

definition pow2 :: "int \<Rightarrow> rat" where
  "pow2 e = (if 0 \<le> e then 2 ^ nat e else 1 / 2 ^ nat (- e))"

text \<open>\<open>\<lfloor>log\<^sub>2 a\<rfloor>\<close> for a positive rational, from the bit lengths of numerator and
  denominator.\<close>

definition ilog2 :: "rat \<Rightarrow> int" where
  "ilog2 a =
     (let d = bitlen (fst (quotient_of a)) - bitlen (snd (quotient_of a))
      in if pow2 d \<le> a then d else d - 1)"

definition round_half_even :: "rat \<Rightarrow> int" where
  "round_half_even x =
     (let f = \<lfloor>x\<rfloor>; d = x - of_int f
      in if d < 1 / 2 then f else if 1 / 2 < d then f + 1 else if even f then f else f + 1)"

definition double :: "rat \<Rightarrow> number" where
  "double r =
     (if r = 0 then Finite 0
      else
        (let e = max (ilog2 \<bar>r\<bar> - 52) (- 1074);
             m = round_half_even (\<bar>r\<bar> / pow2 e)
         in if 971 < e \<or> e = 971 \<and> 2 ^ 53 \<le> m
            then (if 0 < r then PosInfinity else NegInfinity)
            else Finite ((if 0 < r then 1 else - 1) * of_int m * pow2 e)))"

definition infinity :: "bool \<Rightarrow> number" where
  "infinity positive = (if positive then PosInfinity else NegInfinity)"

text \<open>The operators \<^verbatim>\<open>+\<close>, \<^verbatim>\<open>*\<close> and \<^verbatim>\<open>/\<close> on numbers: the exact result, rounded.\<close>

fun js_add :: "number \<Rightarrow> number \<Rightarrow> number" where
  "js_add (Finite x) (Finite y) = double (x + y)"
| "js_add NaN y = NaN"
| "js_add x NaN = NaN"
| "js_add PosInfinity NegInfinity = NaN"
| "js_add NegInfinity PosInfinity = NaN"
| "js_add PosInfinity y = PosInfinity"
| "js_add NegInfinity y = NegInfinity"
| "js_add x PosInfinity = PosInfinity"
| "js_add x NegInfinity = NegInfinity"

fun js_mul :: "number \<Rightarrow> number \<Rightarrow> number" where
  "js_mul (Finite x) (Finite y) = double (x * y)"
| "js_mul NaN y = NaN"
| "js_mul x NaN = NaN"
| "js_mul (Finite x) PosInfinity = (if x = 0 then NaN else infinity (0 < x))"
| "js_mul (Finite x) NegInfinity = (if x = 0 then NaN else infinity (x < 0))"
| "js_mul PosInfinity (Finite y) = (if y = 0 then NaN else infinity (0 < y))"
| "js_mul NegInfinity (Finite y) = (if y = 0 then NaN else infinity (y < 0))"
| "js_mul PosInfinity PosInfinity = PosInfinity"
| "js_mul NegInfinity NegInfinity = PosInfinity"
| "js_mul PosInfinity NegInfinity = NegInfinity"
| "js_mul NegInfinity PosInfinity = NegInfinity"

fun js_div :: "number \<Rightarrow> number \<Rightarrow> number" where
  "js_div (Finite x) (Finite y) =
     (if y = 0 then (if x = 0 then NaN else infinity (0 < x)) else double (x / y))"
| "js_div NaN y = NaN"
| "js_div x NaN = NaN"
| "js_div (Finite x) y = Finite 0"
| "js_div PosInfinity (Finite y) = infinity (0 \<le> y)"
| "js_div NegInfinity (Finite y) = infinity (y < 0)"
| "js_div x y = NaN"

text \<open>A length or a token count as a number.\<close>

definition number_of_nat :: "nat \<Rightarrow> number" where
  "number_of_nat n = double (of_nat n)"

text \<open>One billed operation (\<^verbatim>\<open>CostBreakdown\<close> in services/tools.ts).\<close>

record cost_breakdown =
  service :: string
  cost :: number
  unit :: string

text \<open>The appointment snapshot a successful \<^verbatim>\<open>book_appointment\<close> returns and the
  session keeps in \<^verbatim>\<open>bookedAppointments\<close>.\<close>

record booked =
  b_id :: nat
  b_date :: string
  b_time :: string
  b_service_type :: "string option"

record preferences =
  time_preference :: "string option"
  priority :: "string option"

record conversation_summary =
  cs_contact_number :: string
  cs_session_id :: string
  cs_summary :: string
  cs_booked_appointments :: "booked list"
  cs_user_preferences :: preferences
  cs_cost_total :: number
  cs_cost_breakdown :: "cost_breakdown list"

record database =
  users :: "user list"
  appointments :: "appointment list"
  appointments_id_seq :: nat
  conversation_summaries :: "conversation_summary list"

text \<open>What a query or a tool can throw. \<open>Error m\<close> is \<^verbatim>\<open>new Error(m)\<close>; a
  \<open>DatabaseError\<close> is a statement the database rejects because of a constraint of
  \<^verbatim>\<open>schema.sql\<close>; \<open>TypeError p\<close> is the read of property \<open>p\<close> on a \<^verbatim>\<open>null\<close> argument
  bag. A database error names what PostgreSQL names in its message: the column and the
  table of a \<^verbatim>\<open>NOT NULL\<close> violation, the type a value is too long for, the violated
  \<^verbatim>\<open>UNIQUE\<close> constraint, the table and the violated foreign key. The constraints of
  \<^verbatim>\<open>schema.sql\<close> are unnamed, so they carry the names PostgreSQL generates.\<close>

datatype pg_error =
    NotNullViolation string string
  | StringTooLong string
  | UniqueViolation string
  | ForeignKeyViolation string string

datatype error = Error string | TypeError string | DatabaseError pg_error

definition quoted :: "string \<Rightarrow> string" where
  "quoted s = CHR 0x22 # s @ [CHR 0x22]"

fun pg_message :: "pg_error \<Rightarrow> string" where
  "pg_message (NotNullViolation col rel) =
     ''null value in column '' @ quoted col @ '' of relation '' @ quoted rel
       @ '' violates not-null constraint''"
| "pg_message (StringTooLong ty) = ''value too long for type '' @ ty"
| "pg_message (UniqueViolation key) =
     ''duplicate key value violates unique constraint '' @ quoted key"
| "pg_message (ForeignKeyViolation rel key) =
     ''insert or update on table '' @ quoted rel
       @ '' violates foreign key constraint '' @ quoted key"

fun message :: "error \<Rightarrow> string" where
  "message (Error m) = m"
| "message (TypeError p) =
     ''Cannot read properties of null (reading '' @ [CHR 0x27] @ p @ [CHR 0x27] @ '')''"
| "message (DatabaseError e) = pg_message e"

definition appointments_key :: string where
  "appointments_key = ''appointments_contact_number_appointment_date_appointment_ti_key''"

text \<open>JavaScript truthiness of an optional string, and \<^verbatim>\<open>x || null\<close>.\<close>

definition truthy :: "string option \<Rightarrow> bool" where
  "truthy x = (case x of None \<Rightarrow> False | Some s \<Rightarrow> s \<noteq> [])"

definition or_null :: "string option \<Rightarrow> string option" where
  "or_null x = (if truthy x then x else None)"

text \<open>Assignment to a \<^verbatim>\<open>VARCHAR(n)\<close> column. \<^verbatim>\<open>NULL\<close> stays \<^verbatim>\<open>NULL\<close>; a value of at most
  \<open>n\<close> characters is stored as it is; a longer one is cut to \<open>n\<close> characters when all
  that is cut off is spaces, and rejected (\<open>None\<close>) otherwise. \<open>varchar_ok\<close> says that a
  value is within the width, so that it is stored unchanged.\<close>

definition varchar :: "nat \<Rightarrow> string option \<Rightarrow> string option option" where
  "varchar n x = (case x of None \<Rightarrow> Some None
     | Some s \<Rightarrow> if list_all (\<lambda>c. c = CHR '' '') (drop n s) then Some (Some (take n s))
                else None)"

definition varchar_ok :: "nat \<Rightarrow> string option \<Rightarrow> bool" where
  "varchar_ok n x = (case x of None \<Rightarrow> True | Some s \<Rightarrow> length s \<le> n)"

text \<open>\<^verbatim>\<open>COALESCE(EXCLUDED.x, users.x)\<close>.\<close>

definition coalesce :: "'a option \<Rightarrow> 'a option \<Rightarrow> 'a option" where
  "coalesce x y = (case x of Some v \<Rightarrow> Some v | None \<Rightarrow> y)"

section \<open>User operations (db/queries.ts)\<close>

definition merge_user :: "timestamp \<Rightarrow> string option \<Rightarrow> string option \<Rightarrow> user \<Rightarrow> user" where
  "merge_user now nm em u =
     u\<lparr>u_name := coalesce nm (u_name u), u_email := coalesce em (u_email u),
       u_updated_at := now\<rparr>"

definition createOrUpdateUser ::
  "timestamp \<Rightarrow> string option \<Rightarrow> string option \<Rightarrow> string option \<Rightarrow> database
     \<Rightarrow> (error + user) \<times> database" where
  "createOrUpdateUser now contactNumber name email db =
     (case varchar 20 contactNumber of
        None \<Rightarrow> (Inl (DatabaseError (StringTooLong ''character varying(20)'')), db)
      | Some cn \<Rightarrow>
     (case varchar 255 (or_null name) of
        None \<Rightarrow> (Inl (DatabaseError (StringTooLong ''character varying(255)'')), db)
      | Some nm \<Rightarrow>
     (case varchar 255 (or_null email) of
        None \<Rightarrow> (Inl (DatabaseError (StringTooLong ''character varying(255)'')), db)
      | Some em \<Rightarrow>
     (case cn of
        None \<Rightarrow> (Inl (DatabaseError (NotNullViolation ''contact_number'' ''users'')), db)
      | Some c \<Rightarrow>
          (case find (\<lambda>u. u_contact_number u = c) (users db) of
              Some u \<Rightarrow>
                (Inr (merge_user now nm em u),
                 db\<lparr>users := map (\<lambda>u. if u_contact_number u = c
                                        then merge_user now nm em u else u) (users db)\<rparr>)
            | None \<Rightarrow>
                (let u = \<lparr>u_contact_number = c, u_name = nm, u_email = em,
                           u_created_at = now, u_updated_at = now\<rparr>
                 in (Inr u, db\<lparr>users := users db @ [u]\<rparr>)))))))"

definition getUser :: "string option \<Rightarrow> database \<Rightarrow> user option" where
  "getUser contactNumber db =
     find (\<lambda>u. Some (u_contact_number u) = contactNumber) (users db)"

section \<open>Appointment operations (db/queries.ts)\<close>

text \<open>The columns of \<^verbatim>\<open>UNIQUE(contact_number, appointment_date, appointment_time, status)\<close>.\<close>

definition unique_key :: "appointment \<Rightarrow> string \<times> string \<times> string \<times> status" where
  "unique_key a = (a_contact_number a, appointment_date a, appointment_time a, a_status a)"

text \<open>The \<^verbatim>\<open>WHERE\<close> clause of both conflict checks: a confirmed row at the date and
  time. A \<^verbatim>\<open>NULL\<close> parameter equals nothing.\<close>

definition slot_taken :: "string option \<Rightarrow> string option \<Rightarrow> appointment \<Rightarrow> bool" where
  "slot_taken d t a =
     (Some (appointment_date a) = d \<and> Some (appointment_time a) = t \<and> a_status a = Confirmed)"

text \<open>The \<^verbatim>\<open>INSERT\<close> of createAppointment. The values are first fitted to the column
  widths; a value that does not fit ends the statement before a row is formed. Then the
  sequence behind \<^verbatim>\<open>id SERIAL\<close> advances, whether or not the row is stored, and the row
  is stored only when no constraint rejects it: \<^verbatim>\<open>NOT NULL\<close>, then the \<^verbatim>\<open>UNIQUE\<close> key,
  then the foreign key to \<^verbatim>\<open>users\<close>.\<close>

definition insert_appointment ::
  "timestamp \<Rightarrow> string option \<Rightarrow> string option \<Rightarrow> string option \<Rightarrow> string option
     \<Rightarrow> string option \<Rightarrow> database \<Rightarrow> (error + appointment) \<times> database" where
  "insert_appointment now contactNumber d t st nt db =
     (case varchar 20 contactNumber of
        None \<Rightarrow> (Inl (DatabaseError (StringTooLong ''character varying(20)'')), db)
      | Some cn \<Rightarrow>
     (case varchar 255 st of
        None \<Rightarrow> (Inl (DatabaseError (StringTooLong ''character varying(255)'')), db)
      | Some st' \<Rightarrow>
     (let db' = db\<lparr>appointments_id_seq := Suc (appointments_id_seq db)\<rparr> in
      case (cn, d, t) of
        (Some c, Some d', Some t') \<Rightarrow>
          (let row = \<lparr>a_id = appointments_id_seq db, a_contact_number = c,
                       appointment_date = d', appointment_time = t', service_type = st',
                       a_notes = nt, a_status = Confirmed, a_created_at = now,
                       a_updated_at = now\<rparr>
           in if list_ex (\<lambda>b. unique_key b = unique_key row) (appointments db)
              then (Inl (DatabaseError (UniqueViolation appointments_key)), db')
              else if \<not> list_ex (\<lambda>u. u_contact_number u = c) (users db)
              then (Inl (DatabaseError (ForeignKeyViolation ''appointments''
                      ''appointments_contact_number_fkey'')), db')
              else (Inr row, db'\<lparr>appointments := appointments db @ [row]\<rparr>))
      | _ \<Rightarrow> (Inl (DatabaseError (NotNullViolation
                 (if cn = None then ''contact_number''
                  else if d = None then ''appointment_date'' else ''appointment_time'')
                 ''appointments'')), db'))))"

definition createAppointment ::
  "timestamp \<Rightarrow> string option \<Rightarrow> string option \<Rightarrow> string option \<Rightarrow> string option
     \<Rightarrow> string option \<Rightarrow> database \<Rightarrow> (error + appointment) \<times> database" where
  "createAppointment now contactNumber appointmentDate appointmentTime serviceType nts db =
     (if list_ex (slot_taken appointmentDate appointmentTime) (appointments db)
      then (Inl (Error ''Appointment slot already booked''), db)
      else insert_appointment now contactNumber appointmentDate appointmentTime
             (or_null serviceType) (or_null nts) db)"

text \<open>\<^verbatim>\<open>status\<close> is a \<^verbatim>\<open>VARCHAR\<close> column holding one of three words.\<close>

fun status_text :: "status \<Rightarrow> string" where
  "status_text Confirmed = ''confirmed''"
| "status_text Cancelled = ''cancelled''"
| "status_text Completed = ''completed''"

definition getAppointments :: "string option \<Rightarrow> string option \<Rightarrow> database \<Rightarrow> appointment list" where
  "getAppointments contactNumber st db =
     rev (sort_key (\<lambda>a. (appointment_date a, appointment_time a))
       (filter (\<lambda>a. Some (a_contact_number a) = contactNumber \<and>
                     (truthy st \<longrightarrow> Some (status_text (a_status a)) = st))
          (appointments db)))"

text \<open>The \<^verbatim>\<open>WHERE id = $1 AND contact_number = $2\<close> of the two updates.\<close>

definition targets :: "nat option \<Rightarrow> string option \<Rightarrow> appointment \<Rightarrow> bool" where
  "targets appointmentId contactNumber a =
     (Some (a_id a) = appointmentId \<and> Some (a_contact_number a) = contactNumber)"

text \<open>An \<^verbatim>\<open>UPDATE ... WHERE id = $1 AND contact_number = $2 RETURNING *\<close>: every
  targeted row is rewritten by \<open>f\<close>; the statement is rejected, and nothing written, when a
  rewritten row would share its unique key with another row.\<close>

definition update_appointment ::
  "(appointment \<Rightarrow> appointment) \<Rightarrow> nat option \<Rightarrow> string option \<Rightarrow> database
     \<Rightarrow> (error + appointment option) \<times> database" where
  "update_appointment f appointmentId contactNumber db =
     (if list_ex (\<lambda>a. targets appointmentId contactNumber a \<and>
            list_ex (\<lambda>b. a_id b \<noteq> a_id a \<and> unique_key b = unique_key (f a)) (appointments db))
          (appointments db)
      then (Inl (DatabaseError (UniqueViolation appointments_key)), db)
      else (Inr (map_option f (find (targets appointmentId contactNumber) (appointments db))),
            db\<lparr>appointments :=
                 map (\<lambda>a. if targets appointmentId contactNumber a then f a else a)
                   (appointments db)\<rparr>))"

text \<open>The \<^verbatim>\<open>SET\<close> clauses of the two updates.\<close>

definition cancel_row :: "timestamp \<Rightarrow> appointment \<Rightarrow> appointment" where
  "cancel_row now a = a\<lparr>a_status := Cancelled, a_updated_at := now\<rparr>"

definition modify_row ::
  "timestamp \<Rightarrow> string option \<Rightarrow> string option \<Rightarrow> appointment \<Rightarrow> appointment" where
  "modify_row now newDate newTime a =
     a\<lparr>appointment_date := (if truthy newDate then the newDate else appointment_date a),
       appointment_time := (if truthy newTime then the newTime else appointment_time a),
       a_updated_at := now\<rparr>"

definition cancelAppointment ::
  "timestamp \<Rightarrow> nat option \<Rightarrow> string option \<Rightarrow> database
     \<Rightarrow> (error + appointment option) \<times> database" where
  "cancelAppointment now appointmentId contactNumber db =
     update_appointment (cancel_row now) appointmentId contactNumber db"

definition modifyAppointment ::
  "timestamp \<Rightarrow> nat option \<Rightarrow> string option \<Rightarrow> string option \<Rightarrow> string option \<Rightarrow> database
     \<Rightarrow> (error + appointment option) \<times> database" where
  "modifyAppointment now appointmentId contactNumber newDate newTime db =
     (if truthy newDate \<and> truthy newTime \<and>
         list_ex (\<lambda>a. slot_taken newDate newTime a \<and>
                    (case appointmentId of None \<Rightarrow> False | Some i \<Rightarrow> a_id a \<noteq> i))
           (appointments db)
      then (Inl (Error ''New appointment slot already booked''), db)
      else if \<not> truthy newDate \<and> \<not> truthy newTime
      then (Inl (Error ''No fields to update''), db)
      else update_appointment (modify_row now newDate newTime) appointmentId contactNumber db)"

definition getAppointmentById :: "nat option \<Rightarrow> string option \<Rightarrow> database \<Rightarrow> appointment option" where
  "getAppointmentById appointmentId contactNumber db =
     find (targets appointmentId contactNumber) (appointments db)"

section \<open>Slot catalog (config/slots.ts)\<close>

record slot =
  s_date :: string
  s_time :: string
  available :: bool

definition AVAILABLE_SLOTS :: "slot list" where
  "AVAILABLE_SLOTS =
     concat (map (\<lambda>d. map (\<lambda>t. \<lparr>s_date = d, s_time = t, available = True\<rparr>)
                        [''09:00'', ''10:00'', ''11:00'', ''14:00'', ''15:00''])
               [''2024-01-15'', ''2024-01-16'', ''2024-01-17''])"

definition getAvailableSlots :: "string option \<Rightarrow> slot list" where
  "getAvailableSlots d =
     (if truthy d then filter (\<lambda>s. Some (s_date s) = d \<and> available s) AVAILABLE_SLOTS
      else filter available AVAILABLE_SLOTS)"

section \<open>Cost ledger and tool dispatch (services/tools.ts)\<close>

text \<open>The state the tools work on: the database and the module-level \<^verbatim>\<open>costTracker\<close>.\<close>

record world =
  db :: database
  costTracker :: "cost_breakdown list"

definition addCost :: "string \<Rightarrow> number \<Rightarrow> string \<Rightarrow> world \<Rightarrow> world" where
  "addCost sv c un w =
     w\<lparr>costTracker := costTracker w @ [\<lparr>service = sv, cost = c, unit = un\<rparr>]\<rparr>"

definition getTotalCost :: "world \<Rightarrow> number" where
  "getTotalCost w = foldl (\<lambda>sum item. js_add sum (cost item)) (Finite 0) (costTracker w)"

definition resetCost :: "world \<Rightarrow> world" where
  "resetCost w = w\<lparr>costTracker := []\<rparr>"

text \<open>The argument bag of a tool call, one optional field for every property a tool
  reads. \<open>arg_appointment_id\<close> is the number given, if any.\<close>

record args =
  arg_contact_number :: "string option"
  arg_name :: "string option"
  arg_email :: "string option"
  arg_date :: "string option"
  arg_appointment_date :: "string option"
  arg_appointment_time :: "string option"
  arg_service_type :: "string option"
  arg_notes :: "string option"
  arg_status :: "string option"
  arg_appointment_id :: "nat option"
  arg_new_date :: "string option"
  arg_new_time :: "string option"

text \<open>A tool call: the name and the argument bag; \<open>None\<close> is a bag that is \<^verbatim>\<open>null\<close>.\<close>

record tool_call =
  tc_name :: string
  tc_arguments :: "args option"

record appointment_view =
  v_id :: nat
  v_date :: string
  v_time :: string
  v_service_type :: "string option"
  v_status :: status
  v_notes :: "string option"

datatype payload =
    NoPayload
  | UserPayload user
  | SlotsPayload "(string \<times> string) list" nat
  | BookedPayload booked
  | AppointmentsPayload "appointment_view list" nat
  | AppointmentPayload nat string string

text \<open>The object executeTool returns.\<close>

record envelope =
  success :: bool
  e_message :: "string option"
  e_error :: "string option"
  e_payload :: payload

definition ok :: "string option \<Rightarrow> payload \<Rightarrow> envelope" where
  "ok m p = \<lparr>success = True, e_message = m, e_error = None, e_payload = p\<rparr>"

text \<open>Reading a property of the argument bag throws on \<^verbatim>\<open>null\<close>; \<open>p\<close> is the property
  that is read first.\<close>

definition with_args ::
  "string \<Rightarrow> args option \<Rightarrow> (args \<Rightarrow> (error + envelope) \<times> world) \<Rightarrow> world
     \<Rightarrow> (error + envelope) \<times> world" where
  "with_args p a f w = (case a of None \<Rightarrow> (Inl (TypeError p), w) | Some x \<Rightarrow> f x)"

text \<open>An awaited query: its error is thrown on, its result handed to the continuation.\<close>

definition await ::
  "('a \<Rightarrow> error + envelope) \<Rightarrow> (error + 'a) \<times> database \<Rightarrow> world \<Rightarrow> (error + envelope) \<times> world" where
  "await k r w =
     (case fst r of Inl e \<Rightarrow> (Inl e, w\<lparr>db := snd r\<rparr>) | Inr x \<Rightarrow> (k x, w\<lparr>db := snd r\<rparr>))"

text \<open>The \<^verbatim>\<open>switch\<close> inside the \<^verbatim>\<open>try\<close> of executeTool: \<open>Inl\<close> is a throw.\<close>

definition tool_switch :: "timestamp \<Rightarrow> tool_call \<Rightarrow> world \<Rightarrow> (error + envelope) \<times> world" where
  "tool_switch now toolCall w =
     (let name = tc_name toolCall; args = tc_arguments toolCall in
      if name = ''identify_user'' then
        (let w1 = addCost ''identify_user'' (double (1 / 1000)) ''call'' w in
         with_args ''contact_number'' args (\<lambda>a.
           await (\<lambda>user. Inr (ok (Some (''User identified: '' @
                     (case arg_contact_number a of Some c \<Rightarrow> c | None \<Rightarrow> ''undefined'')))
                   (UserPayload user)))
             (createOrUpdateUser now (arg_contact_number a) (arg_name a) (arg_email a) (db w1))
             w1) w1)
      else if name = ''fetch_slots'' then
        (let w1 = addCost ''fetch_slots'' (double (1 / 1000)) ''call'' w in
         with_args ''date'' args (\<lambda>a.
           (let slots = getAvailableSlots (arg_date a)
            in (Inr (ok None (SlotsPayload (map (\<lambda>s. (s_date s, s_time s)) slots)
                                (length slots))), w1))) w1)
      else if name = ''book_appointment'' then
        (let w1 = addCost ''book_appointment'' (double (2 / 1000)) ''call'' w in
         with_args ''contact_number'' args (\<lambda>a.
           await (\<lambda>appointment. Inr (ok (Some ''Appointment booked successfully'')
                   (BookedPayload \<lparr>b_id = a_id appointment, b_date = appointment_date appointment,
                      b_time = appointment_time appointment,
                      b_service_type = service_type appointment\<rparr>)))
             (createAppointment now (arg_contact_number a) (arg_appointment_date a)
                (arg_appointment_time a) (arg_service_type a) (arg_notes a) (db w1))
             w1) w1)
      else if name = ''retrieve_appointments'' then
        (let w1 = addCost ''retrieve_appointments'' (double (1 / 1000)) ''call'' w in
         with_args ''contact_number'' args (\<lambda>a.
           (let appointments = getAppointments (arg_contact_number a) (arg_status a) (db w1)
            in (Inr (ok None (AppointmentsPayload
                  (map (\<lambda>apt. \<lparr>v_id = a_id apt, v_date = appointment_date apt,
                          v_time = appointment_time apt, v_service_type = service_type apt,
                          v_status = a_status apt, v_notes = a_notes apt\<rparr>) appointments)
                  (length appointments))), w1))) w1)
      else if name = ''cancel_appointment'' then
        (let w1 = addCost ''cancel_appointment'' (double (2 / 1000)) ''call'' w in
         with_args ''appointment_id'' args (\<lambda>a.
           await (\<lambda>appointment. case appointment of
                     None \<Rightarrow> Inl (Error ''Appointment not found or already cancelled'')
                   | Some apt \<Rightarrow> Inr (ok (Some ''Appointment cancelled successfully'')
                       (AppointmentPayload (a_id apt) (appointment_date apt)
                          (appointment_time apt))))
             (cancelAppointment now (arg_appointment_id a) (arg_contact_number a) (db w1))
             w1) w1)
      else if name = ''modify_appointment'' then
        (let w1 = addCost ''modify_appointment'' (double (2 / 1000)) ''call'' w in
         with_args ''appointment_id'' args (\<lambda>a.
           await (\<lambda>appointment. case appointment of
                     None \<Rightarrow> Inl (Error ''Appointment not found'')
                   | Some apt \<Rightarrow> Inr (ok (Some ''Appointment modified successfully'')
                       (AppointmentPayload (a_id apt) (appointment_date apt)
                          (appointment_time apt))))
             (modifyAppointment now (arg_appointment_id a) (arg_contact_number a)
                (arg_new_date a) (arg_new_time a) (db w1))
             w1) w1)
      else if name = ''end_conversation'' then
        (let w1 = addCost ''end_conversation'' (double (1 / 1000)) ''call'' w in
         (Inr (ok (Some ''Conversation ended'') NoPayload), w1))
      else (Inl (Error (''Unknown tool: '' @ name)), w))"

text \<open>The \<^verbatim>\<open>catch\<close>: \<^verbatim>\<open>{ success: false, error: error.message || 'Unknown error' }\<close>.\<close>

definition failure :: "error \<Rightarrow> envelope" where
  "failure e =
     \<lparr>success = False, e_message = None,
      e_error = Some (if message e = [] then ''Unknown error'' else message e),
      e_payload = NoPayload\<rparr>"

definition executeTool :: "timestamp \<Rightarrow> tool_call \<Rightarrow> world \<Rightarrow> envelope \<times> world" where
  "executeTool now toolCall w =
     (case tool_switch now toolCall w of
        (Inr r, w') \<Rightarrow> (r, w')
      | (Inl e, w') \<Rightarrow> (failure e, w'))"

section \<open>Summary generation (services/summary.ts)\<close>

datatype role = User | Assistant | System | Tool

fun role_text :: "role \<Rightarrow> string" where
  "role_text User = ''user''"
| "role_text Assistant = ''assistant''"
| "role_text System = ''system''"
| "role_text Tool = ''tool''"

record conversation_message =
  cm_role :: role
  cm_content :: string

text \<open>What the model may ask for: a tool by name with its arguments as JSON text. The
  text is kept as what \<^verbatim>\<open>JSON.parse\<close> makes of it: a syntax error, \<^verbatim>\<open>null\<close>, or an
  argument bag.\<close>

datatype json_args = Malformed | Null | Object args

record tool_request =
  tr_id :: string
  tr_name :: string
  tr_arguments :: json_args

text \<open>One awaited \<^verbatim>\<open>chat.completions.create\<close>: the request is rejected, or a response
  arrives with \<^verbatim>\<open>choices[0]?.message\<close> (if any) and \<^verbatim>\<open>usage?.completion_tokens || 0\<close>.\<close>

record llm_message =
  lm_content :: "string option"
  lm_tool_calls :: "tool_request list"

datatype completion = Rejected | Completion "llm_message option" nat

text \<open>The two serialisations whose length is billed, \<^verbatim>\<open>JSON.stringify(result)\<close> and
  \<^verbatim>\<open>JSON.stringify(bookedAppointments, null, 2)\<close>, are inputs.\<close>

record json =
  stringify_result :: "envelope \<Rightarrow> string"
  stringify_booked :: "booked list \<Rightarrow> string"

definition nl :: string where
  "nl = [CHR 0x0A]"

text \<open>\<^verbatim>\<open>Array.prototype.join\<close>.\<close>

fun join :: "string \<Rightarrow> string list \<Rightarrow> string" where
  "join sep [] = []"
| "join sep [x] = x"
| "join sep (x # y # ys) = x @ sep @ join sep (y # ys)"

text \<open>\<^verbatim>\<open>toLowerCase\<close> on the letters A to Z, and \<^verbatim>\<open>includes\<close>.\<close>

definition to_lower :: "char \<Rightarrow> char" where
  "to_lower c = (if CHR ''A'' \<le> c \<and> c \<le> CHR ''Z'' then char_of (of_char c + (32::nat)) else c)"

definition js_includes :: "string \<Rightarrow> string \<Rightarrow> bool" where
  "js_includes text w = sublist w text"

definition extractPreferences :: "conversation_message list \<Rightarrow> preferences" where
  "extractPreferences messages =
     (let userMessages = filter (\<lambda>m. cm_role m = User) messages;
          text = map to_lower (join '' '' (map cm_content userMessages));
          p0 = \<lparr>time_preference = None, priority = None\<rparr>;
          p1 = (if js_includes text ''morning'' \<or> js_includes text ''am''
                then p0\<lparr>time_preference := Some ''morning''\<rparr> else p0);
          p2 = (if js_includes text ''afternoon'' \<or> js_includes text ''pm''
                then p1\<lparr>time_preference := Some ''afternoon''\<rparr> else p1)
      in if js_includes text ''urgent'' \<or> js_includes text ''asap''
         then p2\<lparr>priority := Some ''urgent''\<rparr> else p2)"

text \<open>The \<^verbatim>\<open>INSERT INTO conversation_summaries\<close>: \<^verbatim>\<open>contact_number VARCHAR(20)\<close> refers
  to \<^verbatim>\<open>users\<close>, \<^verbatim>\<open>session_id\<close> is a \<^verbatim>\<open>VARCHAR(255)\<close>.\<close>

definition saveConversationSummary ::
  "string \<Rightarrow> string \<Rightarrow> string \<Rightarrow> booked list \<Rightarrow> preferences \<Rightarrow> number \<times> cost_breakdown list
     \<Rightarrow> database \<Rightarrow> (error + conversation_summary) \<times> database" where
  "saveConversationSummary contactNumber sessionId summary bookedAppointments userPreferences
       costBreakdown d =
     (case varchar 20 (Some contactNumber) of
        Some (Some c) \<Rightarrow>
     (case varchar 255 (Some sessionId) of
        Some (Some sid) \<Rightarrow>
          (let row = \<lparr>cs_contact_number = c, cs_session_id = sid,
                       cs_summary = summary, cs_booked_appointments = bookedAppointments,
                       cs_user_preferences = userPreferences, cs_cost_total = fst costBreakdown,
                       cs_cost_breakdown = snd costBreakdown\<rparr>
           in if \<not> list_ex (\<lambda>u. u_contact_number u = c) (users d)
              then (Inl (DatabaseError (ForeignKeyViolation ''conversation_summaries''
                      ''conversation_summaries_contact_number_fkey'')), d)
              else (Inr row, d\<lparr>conversation_summaries := conversation_summaries d @ [row]\<rparr>))
      | _ \<Rightarrow> (Inl (DatabaseError (StringTooLong ''character varying(255)'')), d))
      | _ \<Rightarrow> (Inl (DatabaseError (StringTooLong ''character varying(20)'')), d))"

definition summary_prompt :: "string \<Rightarrow> string \<Rightarrow> string" where
  "summary_prompt conversationText booked =
     ''Generate a concise summary of this conversation with a customer service AI agent. '' @ nl @
     ''Include:'' @ nl @
     ''1. Main topics discussed'' @ nl @
     ''2. Customer requests'' @ nl @
     ''3. Actions taken (appointments booked, retrieved, cancelled, etc.)'' @ nl @
     ''4. Any important details mentioned by the customer'' @ nl @ nl @
     ''Conversation:'' @ nl @ conversationText @ nl @ nl @
     ''Booked Appointments:'' @ nl @ booked @ nl @ nl @
     ''Keep the summary under 200 words and be specific about dates, times, and actions taken.''"

text \<open>generateSummary. \<open>response\<close> is the outcome of its one request to the summarization
  model. Everything after the request, the persistence included, is inside the
  \<^verbatim>\<open>try\<close>; the \<^verbatim>\<open>catch\<close> returns the placeholder.\<close>

definition generateSummary ::
  "json \<Rightarrow> completion \<Rightarrow> conversation_message list \<Rightarrow> string \<Rightarrow> string \<Rightarrow> booked list
     \<Rightarrow> world \<Rightarrow> string \<times> world" where
  "generateSummary js response messages contactNumber sessionId bookedAppointments w =
     (let conversationText = join nl
            (map (\<lambda>m. if cm_role m = Tool then ''Tool: '' @ cm_content m
                        else role_text (cm_role m) @ '': '' @ cm_content m)
               (filter (\<lambda>m. cm_role m \<noteq> System) messages));
          userPreferences = extractPreferences messages;
          prompt = summary_prompt conversationText (stringify_booked js bookedAppointments);
          summaryInputTokens = js_div (number_of_nat (length prompt)) (double 4);
          w1 = addCost ''openai_summary''
                 (js_mul (js_div summaryInputTokens (double 1000)) (double (1 / 100)))
                 ''1k_tokens'' w
      in case response of
           Rejected \<Rightarrow> (''Summary generation failed. Conversation details saved.'', w1)
         | Completion msg summaryOutputTokens \<Rightarrow>
             (let w2 = addCost ''openai_summary_output''
                         (js_mul (js_div (number_of_nat summaryOutputTokens) (double 1000))
                            (double (3 / 100))) ''1k_tokens'' w1;
                  summary = (case msg of
                       None \<Rightarrow> ''No summary generated.''
                     | Some m \<Rightarrow> (if truthy (lm_content m) then the (lm_content m)
                                   else ''No summary generated.''));
                  costBreakdown = (getTotalCost w2, costTracker w2)
              in case saveConversationSummary contactNumber sessionId summary bookedAppointments
                        userPreferences costBreakdown (db w2) of
                   (Inl e, d) \<Rightarrow>
                     (''Summary generation failed. Conversation details saved.'', w2\<lparr>db := d\<rparr>)
                 | (Inr row, d) \<Rightarrow> (summary, w2\<lparr>db := d\<rparr>)))"

section \<open>The agent (agent/agent.ts)\<close>

record chat_message =
  m_role :: role
  m_content :: "string option"
  m_tool_calls :: "tool_request list"
  m_tool_call_id :: "string option"

record agent_state =
  contactNumber :: "string option"
  sessionId :: string
  messages :: "chat_message list"
  toolCalls :: "(tool_call \<times> envelope) list"
  bookedAppointments :: "payload list"
  conversationEnded :: bool

datatype event =
    ToolCallEvent tool_call envelope
  | SummaryEvent string "payload list" "(tool_call \<times> envelope) list"

text \<open>An agent is its state and what its event emitter has emitted so far.\<close>

record agent =
  state :: agent_state
  emitted :: "event list"

text \<open>What an agent runs against: the database and cost ledger, and the outcomes of the
  requests still to be made to the chat model and to the summarization model, in the
  order they will be made. A request that finds no outcome is rejected.\<close>

record runtime =
  store :: world
  chat :: "completion list"
  summarizer :: "completion list"

fun next_completion :: "completion list \<Rightarrow> completion \<times> completion list" where
  "next_completion [] = (Rejected, [])"
| "next_completion (c # cs) = (c, cs)"

definition system_prompt :: string where
  "system_prompt =
     ''You are a friendly AI assistant helping users book appointments. '' @ nl @
     ''Be conversational, helpful, and concise. Always confirm appointment details before booking.'' @ nl @
     ''When booking appointments, extract dates in YYYY-MM-DD format and times in HH:MM format (24-hour).'' @ nl @
     ''Use the available tools to help users.''"

definition text_message :: "role \<Rightarrow> string \<Rightarrow> chat_message" where
  "text_message r c = \<lparr>m_role = r, m_content = Some c, m_tool_calls = [], m_tool_call_id = None\<rparr>"

text \<open>The constructor.\<close>

definition AppointmentAgent :: "string \<Rightarrow> agent" where
  "AppointmentAgent sid =
     \<lparr>state = \<lparr>contactNumber = None, sessionId = sid,
                messages = [text_message System system_prompt], toolCalls = [],
                bookedAppointments = [], conversationEnded = False\<rparr>,
      emitted = []\<rparr>"

text \<open>\<^verbatim>\<open>messages.reduce((sum, m) => sum + (m.content?.length || 0) / 4, 0)\<close>.\<close>

definition input_tokens :: "chat_message list \<Rightarrow> number" where
  "input_tokens ms =
     foldl (\<lambda>sum m. js_add sum
              (js_div (number_of_nat (case m_content m of None \<Rightarrow> 0 | Some c \<Rightarrow> length c))
                 (double 4)))
       (Finite 0) ms"

text \<open>The booked appointments as generateSummary receives them: the \<^verbatim>\<open>appointment\<close>
  property of each successful \<^verbatim>\<open>book_appointment\<close> result.\<close>

fun booked_of :: "payload list \<Rightarrow> booked list" where
  "booked_of [] = []"
| "booked_of (BookedPayload b # ps) = b # booked_of ps"
| "booked_of (p # ps) = booked_of ps"

text \<open>generateAndEmitSummary. The source starts it without awaiting it; here it runs to
  its end at the point where it is started.\<close>

definition generateAndEmitSummary :: "json \<Rightarrow> agent \<times> runtime \<Rightarrow> agent \<times> runtime" where
  "generateAndEmitSummary js ar =
     (let ag = fst ar; rt = snd ar; s = state ag in
      if \<not> truthy (contactNumber s) then ar
      else
        (let summaryMessages =
               map (\<lambda>m. \<lparr>cm_role = m_role m,
                          cm_content = (case m_content m of Some c \<Rightarrow> c
                                         | None \<Rightarrow> [CHR 0x22, CHR 0x22])\<rparr>)
                 (messages s);
             response = next_completion (summarizer rt);
             generated = generateSummary js (fst response) summaryMessages (the (contactNumber s))
                           (sessionId s) (booked_of (bookedAppointments s)) (store rt)
         in (ag\<lparr>emitted := emitted ag @
                    [SummaryEvent (fst generated) (bookedAppointments s) (toolCalls s)]\<rparr>,
             rt\<lparr>store := snd generated, summarizer := snd response\<rparr>)))"

text \<open>How the result of a tool is folded into the session.\<close>

definition fold_result ::
  "json \<Rightarrow> string \<Rightarrow> tool_call \<Rightarrow> envelope \<Rightarrow> agent \<times> runtime \<Rightarrow> agent \<times> runtime" where
  "fold_result js name toolExecution result ar =
     (let ag = fst ar; rt = snd ar; s = state ag in
      if name = ''identify_user'' then
        (if success result
         then (ag\<lparr>state := s\<lparr>contactNumber :=
                  (case tc_arguments toolExecution of None \<Rightarrow> None
                   | Some a \<Rightarrow> arg_contact_number a)\<rparr>\<rparr>, rt)
         else (ag, rt))
      else if name = ''book_appointment'' then
        (if success result
         then (ag\<lparr>state := s\<lparr>bookedAppointments := bookedAppointments s @ [e_payload result]\<rparr>\<rparr>, rt)
         else (ag, rt))
      else if name = ''end_conversation'' then
        generateAndEmitSummary js (ag\<lparr>state := s\<lparr>conversationEnded := True\<rparr>\<rparr>, rt)
      else (ag, rt))"

text \<open>One round of the \<^verbatim>\<open>for\<close> loop over the tool calls of a response, from the
  parsed arguments to the cost entry of the follow-up request: the tool is executed,
  recorded and emitted, its result folded into the session, the two messages pushed.\<close>

definition run_tool_call ::
  "json \<Rightarrow> timestamp \<Rightarrow> tool_request \<Rightarrow> agent \<times> runtime \<Rightarrow> agent \<times> runtime" where
  "run_tool_call js now toolCall ar =
     (let ag = fst ar; rt = snd ar;
          toolExecution = \<lparr>tc_name = tr_name toolCall,
             tc_arguments = (case tr_arguments toolCall of Object a \<Rightarrow> Some a | _ \<Rightarrow> None)\<rparr>;
          ex = executeTool now toolExecution (store rt);
          result = fst ex;
          ag1 = ag\<lparr>state := (state ag)\<lparr>toolCalls := toolCalls (state ag) @ [(toolExecution, result)]\<rparr>,
                  emitted := emitted ag @ [ToolCallEvent toolExecution result]\<rparr>;
          folded = fold_result js (tr_name toolCall) toolExecution result
                     (ag1, rt\<lparr>store := snd ex\<rparr>);
          ag2 = fst folded;
          ag3 = ag2\<lparr>state := (state ag2)\<lparr>messages := messages (state ag2) @
                   [\<lparr>m_role = Assistant, m_content = None, m_tool_calls = [toolCall],
                     m_tool_call_id = None\<rparr>,
                    \<lparr>m_role = Tool, m_content = Some (stringify_result js result),
                     m_tool_calls = [], m_tool_call_id = Some (tr_id toolCall)\<rparr>]\<rparr>\<rparr>
      in (ag3, (snd folded)\<lparr>store := addCost ''openai_chat''
                   (js_mul (js_div (input_tokens (messages (state ag3))) (double 1000)) (double (1 / 100)))
                   ''1k_tokens''
                   (store (snd folded))\<rparr>))"

text \<open>The loop. \<open>Inl ()\<close> is an exception on its way to the \<^verbatim>\<open>catch\<close> of
  processUserMessage (from \<^verbatim>\<open>JSON.parse\<close> or from a rejected follow-up request),
  \<open>Inr\<close> the reply so far.\<close>

fun tool_loop ::
  "json \<Rightarrow> timestamp \<Rightarrow> tool_request list \<Rightarrow> string \<Rightarrow> agent \<times> runtime
     \<Rightarrow> (unit + string) \<times> agent \<times> runtime" where
  "tool_loop js now [] assistantResponse ar = (Inr assistantResponse, ar)"
| "tool_loop js now (toolCall # rest) assistantResponse ar =
     (if tr_arguments toolCall = Malformed then (Inl (), ar)
      else
        (let ar3 = run_tool_call js now toolCall ar;
             followUp = next_completion (chat (snd ar3))
         in case fst followUp of
              Rejected \<Rightarrow> (Inl (), fst ar3, (snd ar3)\<lparr>chat := snd followUp\<rparr>)
            | Completion msg followUpOutputTokens \<Rightarrow>
                tool_loop js now rest
                  (case msg of None \<Rightarrow> assistantResponse
                   | Some m \<Rightarrow> (if truthy (lm_content m) then the (lm_content m)
                                 else assistantResponse))
                  (fst ar3,
                   (snd ar3)\<lparr>chat := snd followUp,
                      store := addCost ''openai_chat_output''
                        (js_mul (js_div (number_of_nat followUpOutputTokens) (double 1000))
                           (double (3 / 100))) ''1k_tokens''
                        (store (snd ar3))\<rparr>)))"

text \<open>processUserMessage. Every query of one turn reads the same timestamp \<open>now\<close>.\<close>

definition processUserMessage ::
  "json \<Rightarrow> timestamp \<Rightarrow> string \<Rightarrow> agent \<times> runtime \<Rightarrow> string \<times> agent \<times> runtime" where
  "processUserMessage js now transcript ar =
     (let ag = fst ar; rt = snd ar in
      if conversationEnded (state ag) then (''The conversation has ended. Thank you!'', ar)
      else
        (let ag1 = ag\<lparr>state := (state ag)\<lparr>messages := messages (state ag) @
                      [text_message User transcript]\<rparr>\<rparr>;
             rt1 = rt\<lparr>store := addCost ''openai_chat''
                      (js_mul (js_div (input_tokens (messages (state ag1))) (double 1000)) (double (1 / 100)))
                      ''1k_tokens''
                      (store rt)\<rparr>;
             response = next_completion (chat rt1)
         in case fst response of
              Rejected \<Rightarrow>
                (''I apologize, but I encountered an error. Please try again.'', ag1,
                 rt1\<lparr>chat := snd response\<rparr>)
            | Completion msg outputTokens \<Rightarrow>
                (let rt2 = rt1\<lparr>chat := snd response,
                       store := addCost ''openai_chat_output''
                         (js_mul (js_div (number_of_nat outputTokens) (double 1000)) (double (3 / 100)))
                         ''1k_tokens'' (store rt1)\<rparr>
                 in case msg of
                      None \<Rightarrow> (''I apologize, but I could not generate a response.'', ag1, rt2)
                    | Some m \<Rightarrow>
                        (let looped = tool_loop js now (lm_tool_calls m)
                                (if truthy (lm_content m) then the (lm_content m) else [])
                                (ag1, rt2);
                             ag' = fst (snd looped)
                         in case fst looped of
                              Inl _ \<Rightarrow>
                                (''I apologize, but I encountered an error. Please try again.'',
                                 snd looped)
                            | Inr assistantResponse \<Rightarrow>
                                (assistantResponse,
                                 ag'\<lparr>state := (state ag')\<lparr>messages := messages (state ag') @
                                       [text_message Assistant assistantResponse]\<rparr>\<rparr>,
                                 snd (snd looped))))))"

text \<open>A sequence of dispatches, and a sequence of user messages to one agent.\<close>

fun run :: "(timestamp \<times> tool_call) list \<Rightarrow> world \<Rightarrow> envelope list \<times> world" where
  "run [] w = ([], w)"
| "run ((now, toolCall) # cs) w =
     (let r = executeTool now toolCall w; rest = run cs (snd r) in (fst r # fst rest, snd rest))"

fun conversation ::
  "json \<Rightarrow> (timestamp \<times> string) list \<Rightarrow> agent \<times> runtime \<Rightarrow> string list \<times> agent \<times> runtime" where
  "conversation js [] ar = ([], ar)"
| "conversation js ((now, transcript) # ts) ar =
     (let r = processUserMessage js now transcript ar; rest = conversation js ts (snd r)
      in (fst r # fst rest, snd rest))"

section \<open>Notions used in the properties\<close>

text \<open>The names of the catalog \<^verbatim>\<open>toolDefinitions\<close> (services/tools.ts), and what each
  tool bills.\<close>

definition toolDefinitions :: "string list" where
  "toolDefinitions =
     [''identify_user'', ''fetch_slots'', ''book_appointment'', ''retrieve_appointments'',
      ''cancel_appointment'', ''modify_appointment'', ''end_conversation'']"

definition price :: "string \<Rightarrow> number" where
  "price name =
     (if name \<in> {''book_appointment'', ''cancel_appointment'', ''modify_appointment''}
      then double (2 / 1000) else double (1 / 1000))"

abbreviation identify_user :: "timestamp \<Rightarrow> args \<Rightarrow> world \<Rightarrow> envelope \<times> world" where
  "identify_user now a w \<equiv>
     executeTool now \<lparr>tc_name = ''identify_user'', tc_arguments = Some a\<rparr> w"

text \<open>The confirmed appointments at a date and time.\<close>

definition confirmed_at :: "string \<Rightarrow> string \<Rightarrow> database \<Rightarrow> appointment list" where
  "confirmed_at d t dbs = filter (slot_taken (Some d) (Some t)) (appointments dbs)"

text \<open>What \<^verbatim>\<open>id SERIAL PRIMARY KEY\<close> maintains: ids are distinct and below the next
  value of the sequence.\<close>

definition consistent :: "database \<Rightarrow> bool" where
  "consistent d =
     (distinct (map a_id (appointments d)) \<and>
      (\<forall>a \<in> set (appointments d). a_id a < appointments_id_seq d))"

text \<open>Two confirmed rows at the same date and time are the same row.\<close>

definition exclusive :: "appointment list \<Rightarrow> bool" where
  "exclusive as =
     (\<forall>a \<in> set as. \<forall>b \<in> set as.
        a_status a = Confirmed \<and> a_status b = Confirmed \<and>
        appointment_date a = appointment_date b \<and> appointment_time a = appointment_time b
        \<longrightarrow> a_id a = a_id b)"

definition wf_store :: "database \<Rightarrow> bool" where
  "wf_store d = (consistent d \<and> exclusive (appointments d))"

text \<open>A \<^verbatim>\<open>book_appointment\<close> call for a date and time; a \<^verbatim>\<open>modify_appointment\<close> call
  that supplies exactly one of \<^verbatim>\<open>new_date\<close> and \<^verbatim>\<open>new_time\<close>.\<close>

definition books :: "string \<Rightarrow> string \<Rightarrow> tool_call \<Rightarrow> bool" where
  "books d t tc =
     (tc_name tc = ''book_appointment'' \<and>
      (case tc_arguments tc of None \<Rightarrow> False
       | Some a \<Rightarrow> arg_appointment_date a = Some d \<and> arg_appointment_time a = Some t))"

definition single_field_modify :: "tool_call \<Rightarrow> bool" where
  "single_field_modify tc =
     (tc_name tc = ''modify_appointment'' \<and>
      (case tc_arguments tc of None \<Rightarrow> False
       | Some a \<Rightarrow> truthy (arg_new_date a) \<noteq> truthy (arg_new_time a)))"






section \<open>Concrete stores, calls and sessions\<close>

definition no_args :: args where
  "no_args = \<lparr>arg_contact_number = None, arg_name = None, arg_email = None, arg_date = None,
     arg_appointment_date = None, arg_appointment_time = None, arg_service_type = None,
     arg_notes = None, arg_status = None, arg_appointment_id = None, arg_new_date = None,
     arg_new_time = None\<rparr>"

definition dial :: "string \<Rightarrow> args" where
  "dial c = no_args\<lparr>arg_contact_number := Some c\<rparr>"

definition ada :: user where
  "ada = \<lparr>u_contact_number = ''+15551234567'', u_name = Some ''Ada'',
          u_email = Some ''ada@example.com'', u_created_at = 1, u_updated_at = 1\<rparr>"

definition bob :: user where
  "bob = \<lparr>u_contact_number = ''+15557654321'', u_name = None, u_email = None,
          u_created_at = 1, u_updated_at = 1\<rparr>"

definition one_user :: world where
  "one_user = \<lparr>db = \<lparr>users = [ada], appointments = [], appointments_id_seq = 1,
                       conversation_summaries = []\<rparr>, costTracker = []\<rparr>"

definition visit :: "nat \<Rightarrow> string \<Rightarrow> string \<Rightarrow> string \<Rightarrow> status \<Rightarrow> appointment" where
  "visit i c d t s =
     \<lparr>a_id = i, a_contact_number = c, appointment_date = d, appointment_time = t,
      service_type = None, a_notes = None, a_status = s, a_created_at = 2, a_updated_at = 2\<rparr>"

text \<open>Two users, the given appointments, an empty ledger.\<close>

definition with_appointments :: "appointment list \<Rightarrow> world" where
  "with_appointments as =
     \<lparr>db = \<lparr>users = [ada, bob], appointments = as, appointments_id_seq = Suc (length as),
             conversation_summaries = []\<rparr>, costTracker = []\<rparr>"

definition booking :: "string \<Rightarrow> string \<Rightarrow> string \<Rightarrow> tool_call" where
  "booking c d t =
     \<lparr>tc_name = ''book_appointment'',
      tc_arguments = Some ((dial c)\<lparr>arg_appointment_date := Some d, arg_appointment_time := Some t\<rparr>)\<rparr>"

definition cancelling :: "string \<Rightarrow> nat \<Rightarrow> tool_call" where
  "cancelling c i =
     \<lparr>tc_name = ''cancel_appointment'',
      tc_arguments = Some ((dial c)\<lparr>arg_appointment_id := Some i\<rparr>)\<rparr>"

definition moving :: "string \<Rightarrow> nat \<Rightarrow> string option \<Rightarrow> string option \<Rightarrow> tool_call" where
  "moving c i d t =
     \<lparr>tc_name = ''modify_appointment'',
      tc_arguments = Some ((dial c)\<lparr>arg_appointment_id := Some i, arg_new_date := d,
                                     arg_new_time := t\<rparr>)\<rparr>"

definition ending :: tool_call where
  "ending = \<lparr>tc_name = ''end_conversation'', tc_arguments = Some no_args\<rparr>"

definition plain_json :: json where
  "plain_json = \<lparr>stringify_result = (\<lambda>r. ''{}''), stringify_booked = (\<lambda>bs. ''[]'')\<rparr>"

text \<open>A fresh agent whose contact number is resolved.\<close>

definition identified :: "string \<Rightarrow> string \<Rightarrow> agent" where
  "identified sid c =
     (AppointmentAgent sid)\<lparr>state := (state (AppointmentAgent sid))\<lparr>contactNumber := Some c\<rparr>\<rparr>"





section \<open>Users: upsert and merge\<close>

lemma find_Some_holds: "find P xs = Some x \<Longrightarrow> P x"
  by (induction xs) (auto split: if_splits)

lemma find_map_update:
  assumes "\<And>x. P x \<Longrightarrow> P (f x)"
  shows "find P (map (\<lambda>x. if P x then f x else x) xs) = map_option f (find P xs)"
  using assms by (induction xs) auto

lemma filter_map_update:
  "filter (\<lambda>x. \<not> P x) (map (\<lambda>x. if P x then f x else x) xs) = filter (\<lambda>x. \<not> P x) xs"
  if "\<And>x. P x \<Longrightarrow> P (f x)"
  using that by (induction xs) auto

lemma merge_user_contact [simp]: "u_contact_number (merge_user now nm em u) = u_contact_number u"
  by (simp add: merge_user_def)

lemma varchar_fits: "varchar_ok n x \<Longrightarrow> varchar n x = Some x"
  by (cases x) (simp_all add: varchar_ok_def varchar_def)

lemma varchar_fits_Some: "length c \<le> n \<Longrightarrow> varchar n (Some c) = Some (Some c)"
  by (simp add: varchar_def)

lemma createOrUpdateUser_stored:
  assumes "find (\<lambda>v. u_contact_number v = c) (users d) = Some u"
    and "length c \<le> 20" "varchar_ok 255 (or_null nm)" "varchar_ok 255 (or_null em)"
  shows "createOrUpdateUser now (Some c) nm em d =
           (Inr (merge_user now (or_null nm) (or_null em) u),
            d\<lparr>users := map (\<lambda>v. if u_contact_number v = c
                                   then merge_user now (or_null nm) (or_null em) v else v)
                             (users d)\<rparr>)"
  using assms by (simp add: createOrUpdateUser_def Let_def varchar_fits varchar_fits_Some)

lemma varchar_ok_or_null: "varchar_ok n x \<Longrightarrow> varchar_ok n (or_null x)"
  by (simp add: varchar_ok_def or_null_def)

lemma identify_user_stored:
  assumes "find (\<lambda>v. u_contact_number v = c) (users (db w)) = Some u"
    and "length c \<le> 20" "varchar_ok 255 (arg_name a)" "varchar_ok 255 (arg_email a)"
    and "arg_contact_number a = Some c"
  shows "identify_user now a w =
     (ok (Some (''User identified: '' @ c))
        (UserPayload (merge_user now (or_null (arg_name a)) (or_null (arg_email a)) u)),
      w\<lparr>db := (db w)\<lparr>users := map (\<lambda>v. if u_contact_number v = c
                 then merge_user now (or_null (arg_name a)) (or_null (arg_email a)) v else v)
                   (users (db w))\<rparr>,
        costTracker := costTracker w @ [\<lparr>service = ''identify_user'', cost = double (1 / 1000), unit = ''call''\<rparr>]\<rparr>)"
  using assms
  by (simp add: executeTool_def tool_switch_def with_args_def await_def addCost_def
      createOrUpdateUser_stored varchar_ok_or_null)

lemma getUser_after_identify:
  assumes "find (\<lambda>v. u_contact_number v = c) (users (db w)) = Some u"
    and "length c \<le> 20" "varchar_ok 255 (arg_name a)" "varchar_ok 255 (arg_email a)"
    and "arg_contact_number a = Some c"
  shows "getUser (Some c) (db (snd (identify_user now a w))) =
           Some (merge_user now (or_null (arg_name a)) (or_null (arg_email a)) u)"
  using assms(1) by (simp add: identify_user_stored [OF assms] getUser_def find_map_update)

text \<open>
  Claim C5. \<^verbatim>\<open>identify_user\<close> upserts and merges. For a contact number with a stored
  record \<open>u\<close>, the call succeeds and leaves every other user's record as it was; without
  a name and without an email the stored record is \<open>u\<close> with a new \<open>updated_at\<close> and
  nothing else changed (so a second identical call changes nothing but \<open>updated_at\<close>);
  with a name and no email only the name (and \<open>updated_at\<close>) changes, the stored email
  is kept; with an email and no name only the email changes, the stored name is kept.
  The values are within the column widths of \<^verbatim>\<open>schema.sql\<close>.
\<close>

theorem identify_user_upsert_merge:
  assumes "find (\<lambda>v. u_contact_number v = c) (users (db w)) = Some u"
    and "length c \<le> 20" "varchar_ok 255 (arg_name a)" "varchar_ok 255 (arg_email a)"
    and "arg_contact_number a = Some c"
  shows "success (fst (identify_user now a w)) \<and>
     (\<not> truthy (arg_name a) \<and> \<not> truthy (arg_email a) \<longrightarrow>
        getUser (Some c) (db (snd (identify_user now a w))) = Some (u\<lparr>u_updated_at := now\<rparr>)) \<and>
     (truthy (arg_name a) \<and> \<not> truthy (arg_email a) \<longrightarrow>
        getUser (Some c) (db (snd (identify_user now a w)))
          = Some (u\<lparr>u_name := arg_name a, u_updated_at := now\<rparr>)) \<and>
     (\<not> truthy (arg_name a) \<and> truthy (arg_email a) \<longrightarrow>
        getUser (Some c) (db (snd (identify_user now a w)))
          = Some (u\<lparr>u_email := arg_email a, u_updated_at := now\<rparr>)) \<and>
     filter (\<lambda>v. u_contact_number v \<noteq> c) (users (db (snd (identify_user now a w))))
       = filter (\<lambda>v. u_contact_number v \<noteq> c) (users (db w))"
proof -
  have "success (fst (identify_user now a w))"
    by (simp add: identify_user_stored [OF assms] ok_def)
  moreover have "filter (\<lambda>v. u_contact_number v \<noteq> c) (users (db (snd (identify_user now a w))))
       = filter (\<lambda>v. u_contact_number v \<noteq> c) (users (db w))"
    by (simp add: identify_user_stored [OF assms] filter_map_update)
  ultimately show ?thesis
    by (simp add: getUser_after_identify [OF assms] merge_user_def or_null_def coalesce_def
          truthy_def split: option.splits)
qed

theorem identify_user_upsert_merge_witness:
  "getUser (Some ''+15551234567'') (db (snd (identify_user 7 (no_args\<lparr>arg_contact_number := Some ''+15551234567''\<rparr>) one_user)))
     = Some (ada\<lparr>u_updated_at := 7\<rparr>) \<and>
   getUser (Some ''+15551234567'') (db (snd (identify_user 7
       (no_args\<lparr>arg_contact_number := Some ''+15551234567'', arg_name := Some ''Grace''\<rparr>) one_user)))
     = Some (ada\<lparr>u_name := Some ''Grace'', u_updated_at := 7\<rparr>) \<and>
   getUser (Some ''+15551234567'') (db (snd (identify_user 7
       (no_args\<lparr>arg_contact_number := Some ''+15551234567'', arg_email := Some ''g@example.com''\<rparr>) one_user)))
     = Some (ada\<lparr>u_email := Some ''g@example.com'', u_updated_at := 7\<rparr>)"
proof -
  have stored: "find (\<lambda>v. u_contact_number v = ''+15551234567'') (users (db one_user)) = Some ada"
    by (simp add: one_user_def ada_def)
  have len: "length ''+15551234567'' \<le> 20"
    by simp
  note inst = identify_user_upsert_merge [OF stored len, where now = 7]
  show ?thesis
    using inst [of "no_args\<lparr>arg_contact_number := Some ''+15551234567''\<rparr>"]
      inst [of "no_args\<lparr>arg_contact_number := Some ''+15551234567'', arg_name := Some ''Grace''\<rparr>"]
      inst [of "no_args\<lparr>arg_contact_number := Some ''+15551234567'', arg_email := Some ''g@example.com''\<rparr>"]
    by (simp add: no_args_def varchar_ok_def truthy_def)
qed

text \<open>
  Claim C10. An empty string given as name or email is treated as an absent field: the
  stored name (email) of the contact's record is kept, not overwritten by the empty
  string, and the whole call has the result and the effect of the call without that
  field.
\<close>

theorem identify_user_empty_string:
  assumes "find (\<lambda>v. u_contact_number v = c) (users (db w)) = Some u"
    and "length c \<le> 20" "varchar_ok 255 (arg_name a)" "varchar_ok 255 (arg_email a)"
    and "arg_contact_number a = Some c"
  shows "(arg_name a = Some [] \<longrightarrow>
        map_option u_name (getUser (Some c) (db (snd (identify_user now a w)))) = Some (u_name u)) \<and>
     (arg_email a = Some [] \<longrightarrow>
        map_option u_email (getUser (Some c) (db (snd (identify_user now a w)))) = Some (u_email u)) \<and>
     identify_user now (a\<lparr>arg_name := Some []\<rparr>) w = identify_user now (a\<lparr>arg_name := None\<rparr>) w \<and>
     identify_user now (a\<lparr>arg_email := Some []\<rparr>) w = identify_user now (a\<lparr>arg_email := None\<rparr>) w"
proof -
  have "identify_user now (a\<lparr>arg_name := Some []\<rparr>) w = identify_user now (a\<lparr>arg_name := None\<rparr>) w"
    by (simp add: executeTool_def tool_switch_def with_args_def createOrUpdateUser_def
        or_null_def truthy_def cong: option.case_cong)
  moreover have "identify_user now (a\<lparr>arg_email := Some []\<rparr>) w = identify_user now (a\<lparr>arg_email := None\<rparr>) w"
    by (simp add: executeTool_def tool_switch_def with_args_def createOrUpdateUser_def
        or_null_def truthy_def cong: option.case_cong)
  ultimately show ?thesis
    by (simp add: getUser_after_identify [OF assms] merge_user_def or_null_def coalesce_def
          truthy_def)
qed

theorem identify_user_empty_string_witness:
  "map_option u_name (getUser (Some ''+15551234567'') (db (snd (identify_user 7
      (no_args\<lparr>arg_contact_number := Some ''+15551234567'', arg_name := Some [], arg_email := Some []\<rparr>) one_user))))
     = Some (Some ''Ada'') \<and>
   map_option u_email (getUser (Some ''+15551234567'') (db (snd (identify_user 7
      (no_args\<lparr>arg_contact_number := Some ''+15551234567'', arg_name := Some [], arg_email := Some []\<rparr>) one_user))))
     = Some (Some ''ada@example.com'')"
proof -
  have stored: "find (\<lambda>v. u_contact_number v = ''+15551234567'') (users (db one_user)) = Some ada"
    by (simp add: one_user_def ada_def)
  have len: "length ''+15551234567'' \<le> 20"
    by simp
  let ?a = "no_args\<lparr>arg_contact_number := Some ''+15551234567'', arg_name := Some [], arg_email := Some []\<rparr>"
  have ok: "varchar_ok 255 (arg_name ?a)" "varchar_ok 255 (arg_email ?a)"
    "arg_contact_number ?a = Some ''+15551234567''"
    by (simp_all add: varchar_ok_def)
  note inst = identify_user_empty_string [OF stored len ok, where now = 7]
  from inst [THEN conjunct1] inst [THEN conjunct2, THEN conjunct1] show ?thesis
    by (simp add: ada_def)
qed

section \<open>What a dispatch does to the database\<close>

lemma executeTool_null_args:
  "tc_arguments tc = None \<Longrightarrow> db (snd (executeTool now tc w)) = db w"
  by (simp add: executeTool_def tool_switch_def with_args_def addCost_def Let_def)

lemma await_db: "db (snd (await k r w)) = snd r"
  by (simp add: await_def split: sum.splits)

lemma snd_executeTool: "snd (executeTool now tc w) = snd (tool_switch now tc w)"
  by (simp add: executeTool_def split: prod.splits sum.splits)

lemma db_addCost [simp]: "db (addCost s c u w) = db w"
  by (simp add: addCost_def)

lemma db_executeTool:
  "db (snd (executeTool now tc w)) =
     (case tc_arguments tc of
        None \<Rightarrow> db w
      | Some a \<Rightarrow>
          if tc_name tc = ''identify_user''
          then snd (createOrUpdateUser now (arg_contact_number a) (arg_name a) (arg_email a) (db w))
          else if tc_name tc = ''book_appointment''
          then snd (createAppointment now (arg_contact_number a) (arg_appointment_date a)
                      (arg_appointment_time a) (arg_service_type a) (arg_notes a) (db w))
          else if tc_name tc = ''cancel_appointment''
          then snd (cancelAppointment now (arg_appointment_id a) (arg_contact_number a) (db w))
          else if tc_name tc = ''modify_appointment''
          then snd (modifyAppointment now (arg_appointment_id a) (arg_contact_number a)
                      (arg_new_date a) (arg_new_time a) (db w))
          else db w)"
proof (cases "tc_arguments tc")
  case None
  then show ?thesis by (simp add: executeTool_null_args)
next
  case (Some a)
  then show ?thesis
    by (simp add: snd_executeTool tool_switch_def with_args_def await_db Let_def)
qed

lemma appointments_createOrUpdateUser [simp]:
  "appointments (snd (createOrUpdateUser now c nm em d)) = appointments d"
  by (simp add: createOrUpdateUser_def Let_def split: option.splits)

lemma createAppointment_cases:
  "createAppointment now c dt tm st nt d = (r, d') \<Longrightarrow>
     (\<exists>e. r = Inl e \<and> appointments d' = appointments d) \<or>
     (\<exists>row. r = Inr row \<and> appointments d' = appointments d @ [row] \<and>
        a_id row = appointments_id_seq d \<and> a_status row = Confirmed \<and>
        Some (appointment_date row) = dt \<and> Some (appointment_time row) = tm \<and>
        \<not> list_ex (slot_taken dt tm) (appointments d))"
  by (auto simp: createAppointment_def insert_appointment_def Let_def
      split: if_splits option.splits)

lemma seq_createAppointment:
  "appointments_id_seq d \<le> appointments_id_seq (snd (createAppointment now c dt tm st nt d))"
  by (auto simp: createAppointment_def insert_appointment_def Let_def
      split: if_splits option.splits)

lemma update_appointment_cases:
  "update_appointment f i c d = (r, d') \<Longrightarrow>
     appointments_id_seq d' = appointments_id_seq d \<and>
     (appointments d' = appointments d \<or>
      appointments d' = map (\<lambda>a. if targets i c a then f a else a) (appointments d))"
  by (auto simp: update_appointment_def split: if_splits)

section \<open>One confirmed appointment per date and time\<close>

lemma length_filter_le_1:
  "distinct xs \<Longrightarrow> (length (filter P xs) \<le> 1) = (\<forall>a \<in> set xs. \<forall>b \<in> set xs. P a \<longrightarrow> P b \<longrightarrow> a = b)"
proof (induction xs)
  case Nil
  then show ?case by simp
next
  case (Cons x xs)
  then have IH: "(length (filter P xs) \<le> 1) = (\<forall>a \<in> set xs. \<forall>b \<in> set xs. P a \<longrightarrow> P b \<longrightarrow> a = b)"
    and x: "x \<notin> set xs"
    by simp_all
  show ?case
  proof (cases "P x")
    case True
    have "(length (filter P (x # xs)) \<le> 1) = (\<forall>a \<in> set xs. \<not> P a)"
      using True by (simp add: filter_empty_conv)
    also have "\<dots> = (\<forall>a \<in> set (x # xs). \<forall>b \<in> set (x # xs). P a \<longrightarrow> P b \<longrightarrow> a = b)"
      using True x by fastforce
    finally show ?thesis .
  next
    case False
    then show ?thesis
      using IH by simp
  qed
qed

lemma distinct_ids: "distinct (map a_id as) \<Longrightarrow> a \<in> set as \<Longrightarrow> b \<in> set as \<Longrightarrow> a_id a = a_id b \<Longrightarrow> a = b"
  by (meson distinct_map inj_onD)

lemma exclusive_iff:
  assumes "distinct (map a_id (appointments d))"
  shows "exclusive (appointments d) = (\<forall>dt tm. length (confirmed_at dt tm d) \<le> 1)"
proof
  have dist: "distinct (appointments d)"
    using assms by (simp add: distinct_map)
  {
    assume ex: "exclusive (appointments d)"
    show "\<forall>dt tm. length (confirmed_at dt tm d) \<le> 1"
    proof (intro allI)
      fix dt tm
      have "\<forall>a \<in> set (appointments d). \<forall>b \<in> set (appointments d).
           slot_taken (Some dt) (Some tm) a \<longrightarrow> slot_taken (Some dt) (Some tm) b \<longrightarrow> a = b"
      proof (intro ballI impI)
        fix a b
        assume ab: "a \<in> set (appointments d)" "b \<in> set (appointments d)"
          and "slot_taken (Some dt) (Some tm) a" "slot_taken (Some dt) (Some tm) b"
        then have "a_id a = a_id b"
          using ex [unfolded exclusive_def, rule_format, of a b] by (simp add: slot_taken_def)
        with ab show "a = b"
          by (rule distinct_ids [OF assms])
      qed
      then show "length (confirmed_at dt tm d) \<le> 1"
        unfolding confirmed_at_def by (rule length_filter_le_1 [OF dist, THEN iffD2])
    qed
  }
  {
    assume le: "\<forall>dt tm. length (confirmed_at dt tm d) \<le> 1"
    show "exclusive (appointments d)"
      unfolding exclusive_def
    proof (intro ballI impI)
      fix a b
      assume ab: "a \<in> set (appointments d)" "b \<in> set (appointments d)"
        and c: "a_status a = Confirmed \<and> a_status b = Confirmed \<and>
          appointment_date a = appointment_date b \<and> appointment_time a = appointment_time b"
      have "length (filter (slot_taken (Some (appointment_date a)) (Some (appointment_time a)))
                (appointments d)) \<le> 1"
        using le unfolding confirmed_at_def by blast
      then have "\<forall>x \<in> set (appointments d). \<forall>y \<in> set (appointments d).
           slot_taken (Some (appointment_date a)) (Some (appointment_time a)) x \<longrightarrow>
           slot_taken (Some (appointment_date a)) (Some (appointment_time a)) y \<longrightarrow> x = y"
        by (rule length_filter_le_1 [OF dist, THEN iffD1])
      moreover have "slot_taken (Some (appointment_date a)) (Some (appointment_time a)) a"
        "slot_taken (Some (appointment_date a)) (Some (appointment_time a)) b"
        using c by (simp_all add: slot_taken_def)
      ultimately have "a = b"
        using ab by blast
      then show "a_id a = a_id b" by simp
    qed
  }
qed

lemma wf_store_same:
  "wf_store d \<Longrightarrow> appointments d' = appointments d \<Longrightarrow>
     appointments_id_seq d \<le> appointments_id_seq d' \<Longrightarrow> wf_store d'"
  by (fastforce simp: wf_store_def consistent_def)

lemma wf_store_append:
  assumes "wf_store d" "appointments d' = appointments d @ [row]"
    and "a_id row = appointments_id_seq d" "appointments_id_seq d < appointments_id_seq d'"
    and "\<not> list_ex (slot_taken (Some (appointment_date row)) (Some (appointment_time row)))
            (appointments d)"
  shows "wf_store d'"
proof -
  have dist: "distinct (map a_id (appointments d))"
    and below: "\<And>a. a \<in> set (appointments d) \<Longrightarrow> a_id a < appointments_id_seq d"
    and excl: "\<And>a b. a \<in> set (appointments d) \<Longrightarrow> b \<in> set (appointments d) \<Longrightarrow>
        a_status a = Confirmed \<Longrightarrow> a_status b = Confirmed \<Longrightarrow>
        appointment_date a = appointment_date b \<Longrightarrow> appointment_time a = appointment_time b \<Longrightarrow>
        a_id a = a_id b"
    using assms(1) unfolding wf_store_def consistent_def exclusive_def by blast+
  have free: "\<And>a. a \<in> set (appointments d) \<Longrightarrow> a_status a = Confirmed \<Longrightarrow>
      appointment_date a = appointment_date row \<Longrightarrow> appointment_time a = appointment_time row \<Longrightarrow> False"
    using assms(5) by (simp add: list_ex_iff slot_taken_def)
  have fresh: "a_id row \<notin> a_id ` set (appointments d)"
    using below assms(3) by force
  have "distinct (map a_id (appointments d'))"
    using dist fresh by (simp add: assms(2))
  moreover have "\<forall>a \<in> set (appointments d'). a_id a < appointments_id_seq d'"
  proof
    fix a assume "a \<in> set (appointments d')"
    then have "a = row \<or> a \<in> set (appointments d)"
      by (simp add: assms(2))
    then show "a_id a < appointments_id_seq d'"
      using below [of a] assms(3,4) by (elim disjE) simp_all
  qed
  moreover have "exclusive (appointments d')"
    unfolding exclusive_def
  proof (intro ballI impI)
    fix a b
    assume "a \<in> set (appointments d')" "b \<in> set (appointments d')"
    then have ab: "a = row \<or> a \<in> set (appointments d)" "b = row \<or> b \<in> set (appointments d)"
      by (simp_all add: assms(2))
    assume c: "a_status a = Confirmed \<and> a_status b = Confirmed \<and>
        appointment_date a = appointment_date b \<and> appointment_time a = appointment_time b"
    from ab show "a_id a = a_id b"
    proof (elim disjE)
      assume "a = row" "b = row"
      then show ?thesis by simp
    next
      assume "a = row" "b \<in> set (appointments d)"
      with free [of b] c show ?thesis by metis
    next
      assume "a \<in> set (appointments d)" "b = row"
      with free [of a] c show ?thesis by metis
    next
      assume "a \<in> set (appointments d)" "b \<in> set (appointments d)"
      with excl [of a b] c show ?thesis by blast
    qed
  qed
  ultimately show ?thesis by (simp add: wf_store_def consistent_def)
qed

lemma wf_store_update:
  assumes wf: "wf_store d"
    and apps: "appointments d' = map (\<lambda>a. if T a then f a else a) (appointments d)"
    and seq: "appointments_id_seq d' = appointments_id_seq d"
    and ids: "\<And>a. a_id (f a) = a_id a"
    and ex: "\<And>a b. a \<in> set (appointments d) \<Longrightarrow> b \<in> set (appointments d) \<Longrightarrow> T a \<Longrightarrow>
               a_status (f a) = Confirmed \<Longrightarrow> a_status (if T b then f b else b) = Confirmed \<Longrightarrow>
               appointment_date (f a) = appointment_date (if T b then f b else b) \<Longrightarrow>
               appointment_time (f a) = appointment_time (if T b then f b else b) \<Longrightarrow>
               a_id a = a_id b"
  shows "wf_store d'"
proof -
  let ?g = "\<lambda>a. if T a then f a else a"
  have g_id: "a_id (?g a) = a_id a" for a
    by (simp add: ids)
  have same: "map a_id (appointments d') = map a_id (appointments d)"
    unfolding apps by (simp add: g_id comp_def)
  have old_below: "\<And>a. a \<in> set (appointments d) \<Longrightarrow> a_id a < appointments_id_seq d"
    and old_excl: "\<And>a b. a \<in> set (appointments d) \<Longrightarrow> b \<in> set (appointments d) \<Longrightarrow>
        a_status a = Confirmed \<Longrightarrow> a_status b = Confirmed \<Longrightarrow>
        appointment_date a = appointment_date b \<Longrightarrow> appointment_time a = appointment_time b \<Longrightarrow>
        a_id a = a_id b"
    using wf unfolding wf_store_def consistent_def exclusive_def by blast+
  have "\<forall>a' \<in> set (appointments d'). a_id a' < appointments_id_seq d'"
  proof
    fix a' assume "a' \<in> set (appointments d')"
    then obtain a where "a \<in> set (appointments d)" "a' = ?g a"
      unfolding apps by auto
    then show "a_id a' < appointments_id_seq d'"
      using old_below [of a] by (simp only: g_id seq)
  qed
  moreover have "distinct (map a_id (appointments d))"
    using wf by (simp add: wf_store_def consistent_def)
  ultimately have "consistent d'"
    using same by (simp add: consistent_def)
  moreover have "exclusive (appointments d')"
    unfolding exclusive_def apps
  proof (intro ballI impI)
    fix a' b'
    assume "a' \<in> set (map ?g (appointments d))" "b' \<in> set (map ?g (appointments d))"
    then obtain a b where a: "a \<in> set (appointments d)" "a' = ?g a"
      and b: "b \<in> set (appointments d)" "b' = ?g b"
      by auto
    assume c: "a_status a' = Confirmed \<and> a_status b' = Confirmed \<and>
          appointment_date a' = appointment_date b' \<and> appointment_time a' = appointment_time b'"
    have "a_id a = a_id b"
    proof (cases "T a")
      case True
      with ex [OF a(1) b(1)] c a(2) b(2) show ?thesis by simp
    next
      case Fa: False
      show ?thesis
      proof (cases "T b")
        case True
        with ex [OF b(1) a(1)] c a(2) b(2) show ?thesis by simp
      next
        case False
        with Fa c a(2) b(2) old_excl [OF a(1) b(1)] show ?thesis
          by simp
      qed
    qed
    then show "a_id a' = a_id b'"
      by (simp add: a(2) b(2) g_id)
  qed
  ultimately show ?thesis by (simp add: wf_store_def)
qed

lemma seq_createOrUpdateUser [simp]:
  "appointments_id_seq (snd (createOrUpdateUser now c nm em d)) = appointments_id_seq d"
  by (simp add: createOrUpdateUser_def Let_def split: option.splits)

lemma modifyAppointment_cases:
  "modifyAppointment now i c nd nt d = (r, d') \<Longrightarrow>
     appointments_id_seq d' = appointments_id_seq d \<and>
     (appointments d' = appointments d \<or>
      (truthy nd \<or> truthy nt) \<and>
      (truthy nd \<and> truthy nt \<longrightarrow>
         \<not> list_ex (\<lambda>a. slot_taken nd nt a \<and> (case i of None \<Rightarrow> False | Some j \<Rightarrow> a_id a \<noteq> j))
              (appointments d)) \<and>
      appointments d' = map (\<lambda>a. if targets i c a then modify_row now nd nt a else a)
                          (appointments d))"
  unfolding modifyAppointment_def
  by (auto split: if_splits dest: update_appointment_cases)

lemma cancelAppointment_cases:
  "cancelAppointment now i c d = (r, d') \<Longrightarrow>
     appointments_id_seq d' = appointments_id_seq d \<and>
     (appointments d' = appointments d \<or>
      appointments d' = map (\<lambda>a. if targets i c a then cancel_row now a else a) (appointments d))"
  unfolding cancelAppointment_def
  by (auto dest: update_appointment_cases)

lemma wf_store_createOrUpdateUser:
  "wf_store d \<Longrightarrow> wf_store (snd (createOrUpdateUser now c nm em d))"
  using wf_store_same [of d "snd (createOrUpdateUser now c nm em d)"] by simp

lemma wf_store_createAppointment:
  assumes "wf_store d"
  shows "wf_store (snd (createAppointment now c dt tm st nt d))"
proof -
  obtain r d' where eq: "createAppointment now c dt tm st nt d = (r, d')"
    by (cases "createAppointment now c dt tm st nt d")
  have seq: "appointments_id_seq d \<le> appointments_id_seq d'"
    using seq_createAppointment [of d now c dt tm st nt] by (simp add: eq)
  from createAppointment_cases [OF eq] show ?thesis
  proof (elim disjE exE conjE)
    fix e assume "appointments d' = appointments d"
    with assms seq show ?thesis
      by (simp add: eq wf_store_same)
  next
    fix row
    assume row: "r = Inr row" "appointments d' = appointments d @ [row]"
      "a_id row = appointments_id_seq d" "Some (appointment_date row) = dt"
      "Some (appointment_time row) = tm" "\<not> list_ex (slot_taken dt tm) (appointments d)"
    have "appointments_id_seq d < appointments_id_seq d'"
      using eq row(1)
      by (auto simp: createAppointment_def insert_appointment_def Let_def
          split: if_splits option.splits)
    with assms row show ?thesis
      by (simp add: eq) (rule wf_store_append [where row = row]; simp)
  qed
qed

lemma wf_store_cancelAppointment:
  assumes "wf_store d"
  shows "wf_store (snd (cancelAppointment now i c d))"
proof -
  obtain r d' where eq: "cancelAppointment now i c d = (r, d')"
    by (cases "cancelAppointment now i c d")
  from cancelAppointment_cases [OF eq] show ?thesis
  proof (elim disjE conjE)
    assume "appointments_id_seq d' = appointments_id_seq d" "appointments d' = appointments d"
    with assms show ?thesis
      by (simp add: eq wf_store_same)
  next
    assume "appointments_id_seq d' = appointments_id_seq d"
      and "appointments d' = map (\<lambda>a. if targets i c a then cancel_row now a else a) (appointments d)"
    with assms show ?thesis
      by (simp add: eq) (rule wf_store_update [where f = "cancel_row now" and T = "targets i c"];
          simp add: cancel_row_def)
  qed
qed

lemma wf_store_modifyAppointment:
  assumes "wf_store d" and both: "truthy nd = truthy nt"
  shows "wf_store (snd (modifyAppointment now i c nd nt d))"
proof -
  obtain r d' where eq: "modifyAppointment now i c nd nt d = (r, d')"
    by (cases "modifyAppointment now i c nd nt d")
  from modifyAppointment_cases [OF eq]
  have seq: "appointments_id_seq d' = appointments_id_seq d"
    by blast
  from modifyAppointment_cases [OF eq]
  consider (same) "appointments d' = appointments d"
    | (upd) "truthy nd \<or> truthy nt"
      "truthy nd \<and> truthy nt \<longrightarrow>
         \<not> list_ex (\<lambda>a. slot_taken nd nt a \<and> (case i of None \<Rightarrow> False | Some j \<Rightarrow> a_id a \<noteq> j))
              (appointments d)"
      "appointments d' = map (\<lambda>a. if targets i c a then modify_row now nd nt a else a)
                          (appointments d)"
    by blast
  then show ?thesis
  proof cases
    case same
    with assms seq show ?thesis
      by (simp add: eq wf_store_same)
  next
    case upd
    note some = upd(1) and free = upd(2) and apps = upd(3)
    from some both have t: "truthy nd" "truthy nt"
      by auto
    then obtain dv tv where v: "nd = Some dv" "nt = Some tv"
      by (auto simp: truthy_def split: option.splits)
    have clash: "\<And>b j. b \<in> set (appointments d) \<Longrightarrow> i = Some j \<Longrightarrow> a_status b = Confirmed \<Longrightarrow>
        appointment_date b = dv \<Longrightarrow> appointment_time b = tv \<Longrightarrow> a_id b = j"
      using free t by (auto simp: list_ex_iff slot_taken_def v)
    have ids: "\<And>a. a_id (modify_row now nd nt a) = a_id a"
      by (simp add: modify_row_def)
    have ex: "a_id a = a_id b"
      if ab: "a \<in> set (appointments d)" "b \<in> set (appointments d)" and Ta: "targets i c a"
        and sa: "a_status (modify_row now nd nt a) = Confirmed"
        and sb: "a_status (if targets i c b then modify_row now nd nt b else b) = Confirmed"
        and dte: "appointment_date (modify_row now nd nt a) =
              appointment_date (if targets i c b then modify_row now nd nt b else b)"
        and tme: "appointment_time (modify_row now nd nt a) =
              appointment_time (if targets i c b then modify_row now nd nt b else b)"
      for a b
    proof -
      from Ta have ia: "i = Some (a_id a)"
        by (simp add: targets_def)
      show "a_id a = a_id b"
      proof (cases "targets i c b")
        case True
        with ia show ?thesis by (simp add: targets_def)
      next
        case False
        with sb dte tme t have "a_status b = Confirmed" "appointment_date b = dv"
          "appointment_time b = tv"
          by (simp_all add: modify_row_def v)
        from clash [OF ab(2) ia this] show ?thesis by simp
      qed
    qed
    have "wf_store d'"
      by (rule wf_store_update [OF assms(1) apps seq ids ex])
    then show ?thesis by (simp add: eq)
  qed
qed

lemma wf_store_executeTool:
  assumes "wf_store (db w)" "\<not> single_field_modify tc"
  shows "wf_store (db (snd (executeTool now tc w)))"
proof (cases "tc_arguments tc")
  case None
  with assms(1) show ?thesis by (simp add: db_executeTool)
next
  case (Some a)
  have "truthy (arg_new_date a) = truthy (arg_new_time a)" if "tc_name tc = ''modify_appointment''"
    using assms(2) that Some by (simp add: single_field_modify_def)
  with assms(1) Some show ?thesis
    by (simp add: db_executeTool wf_store_createOrUpdateUser wf_store_createAppointment
        wf_store_cancelAppointment wf_store_modifyAppointment)
qed

lemma executeTool_book:
  assumes "tc_name tc = ''book_appointment''" "tc_arguments tc = Some a"
  shows "executeTool now tc w =
     (let r = createAppointment now (arg_contact_number a) (arg_appointment_date a)
                (arg_appointment_time a) (arg_service_type a) (arg_notes a) (db w)
      in (case fst r of
            Inl e \<Rightarrow> failure e
          | Inr apt \<Rightarrow> ok (Some ''Appointment booked successfully'')
              (BookedPayload \<lparr>b_id = a_id apt, b_date = appointment_date apt,
                 b_time = appointment_time apt, b_service_type = service_type apt\<rparr>),
          (addCost ''book_appointment'' (double (2 / 1000)) ''call'' w)\<lparr>db := snd r\<rparr>))"
  using assms
  by (simp add: executeTool_def tool_switch_def with_args_def await_def Let_def
      split: sum.splits)

lemma book_conflict:
  assumes "books d t tc" "list_ex (slot_taken (Some d) (Some t)) (appointments (db w))"
  shows "executeTool now tc w =
           (failure (Error ''Appointment slot already booked''),
            addCost ''book_appointment'' (double (2 / 1000)) ''call'' w)"
proof -
  from assms(1) obtain a where a: "tc_name tc = ''book_appointment''" "tc_arguments tc = Some a"
    "arg_appointment_date a = Some d" "arg_appointment_time a = Some t"
    by (auto simp: books_def split: option.splits)
  show ?thesis
    using assms(2) by (simp add: executeTool_book [OF a(1,2)] a(3,4) createAppointment_def addCost_def)
qed

lemma book_success_takes_slot:
  assumes "books d t tc" "success (fst (executeTool now tc w))"
  shows "list_ex (slot_taken (Some d) (Some t)) (appointments (db (snd (executeTool now tc w))))"
proof -
  from assms(1) obtain a where a: "tc_name tc = ''book_appointment''" "tc_arguments tc = Some a"
    "arg_appointment_date a = Some d" "arg_appointment_time a = Some t"
    by (auto simp: books_def split: option.splits)
  let ?r = "createAppointment now (arg_contact_number a) (Some d) (Some t)
              (arg_service_type a) (arg_notes a) (db w)"
  obtain r d' where eq: "?r = (r, d')"
    by (cases ?r)
  from assms(2) obtain row where "r = Inr row"
    by (cases r) (simp_all add: executeTool_book [OF a(1,2)] a(3,4) eq failure_def)
  with createAppointment_cases [OF eq]
  have "appointments d' = appointments (db w) @ [row]" "slot_taken (Some d) (Some t) row"
    by (auto simp: slot_taken_def)
  then show ?thesis
    by (simp add: executeTool_book [OF a(1,2)] a(3,4) eq list_ex_iff)
qed

lemma run_all_conflict:
  assumes "\<forall>c \<in> set cs. books d t (snd c)"
    "list_ex (slot_taken (Some d) (Some t)) (appointments (db w))"
  shows "filter success (fst (run cs w)) = []"
  using assms
proof (induction cs arbitrary: w)
  case Nil
  then show ?case by simp
next
  case (Cons c cs)
  obtain now tc where c: "c = (now, tc)"
    by (cases c)
  from Cons.prems have b: "books d t tc"
    by (simp add: c)
  note step = book_conflict [OF b Cons.prems(2), of now]
  have "filter success (fst (run cs (addCost ''book_appointment'' (double (2 / 1000)) ''call'' w))) = []"
    using Cons.prems by (intro Cons.IH) simp_all
  then show ?case
    by (simp add: c step failure_def Let_def)
qed

lemma run_at_most_one:
  assumes "\<forall>c \<in> set cs. books d t (snd c)"
  shows "length (filter success (fst (run cs w))) \<le> 1"
  using assms
proof (induction cs arbitrary: w)
  case Nil
  then show ?case by simp
next
  case (Cons c cs)
  obtain now tc where c: "c = (now, tc)"
    by (cases c)
  from Cons.prems have b: "books d t tc" and rest: "\<forall>c \<in> set cs. books d t (snd c)"
    by (simp_all add: c)
  obtain r w' where step: "executeTool now tc w = (r, w')"
    by (cases "executeTool now tc w")
  show ?case
  proof (cases "success r")
    case True
    with book_success_takes_slot [OF b, of now w]
    have "list_ex (slot_taken (Some d) (Some t)) (appointments (db w'))"
      by (simp add: step)
    from run_all_conflict [OF rest this] True show ?thesis
      by (simp add: c step Let_def)
  next
    case False
    with Cons.IH [OF rest, of w'] show ?thesis
      by (simp add: c step Let_def)
  qed
qed

lemma wf_store_run:
  assumes "wf_store (db w)" "\<forall>c \<in> set cs. \<not> single_field_modify (snd c)"
  shows "wf_store (db (snd (run cs w)))"
  using assms
proof (induction cs arbitrary: w)
  case Nil
  then show ?case by simp
next
  case (Cons c cs)
  obtain now tc where c: "c = (now, tc)"
    by (cases c)
  have "wf_store (db (snd (executeTool now tc w)))"
    using Cons.prems by (intro wf_store_executeTool) (simp_all add: c)
  then have "wf_store (db (snd (run cs (snd (executeTool now tc w)))))"
    using Cons.prems by (intro Cons.IH) simp_all
  then show ?case
    by (simp add: c Let_def)
qed

lemma wf_store_iff:
  "wf_store d = (consistent d \<and> (\<forall>dt tm. length (confirmed_at dt tm d) \<le> 1))"
  using exclusive_iff [of d] by (auto simp: wf_store_def consistent_def)

text \<open>
  What the booking path does guarantee, for dispatches run one after the other and
  dates and times compared as written. (1) Starting from a store whose ids are distinct
  and below the sequence and where every (date, time) has at most one confirmed
  appointment, the same holds after every sequence of dispatches, whatever the tools and
  arguments, as long as no \<^verbatim>\<open>modify_appointment\<close> call in it supplies exactly one of
  \<^verbatim>\<open>new_date\<close> and \<^verbatim>\<open>new_time\<close>. (2) Of any sequence of \<^verbatim>\<open>book_appointment\<close> calls
  for the same (date, time), from any store, at most one succeeds. (3) While a confirmed
  appointment holds the (date, time), a \<^verbatim>\<open>book_appointment\<close> call for it fails with
  \<^verbatim>\<open>Appointment slot already booked\<close> and leaves the database as it was: only the
  cost entry is added.
\<close>

lemma booking_path_exclusive:
  "(consistent (db w) \<and> (\<forall>dt tm. length (confirmed_at dt tm (db w)) \<le> 1) \<and>
      (\<forall>c \<in> set cs. \<not> single_field_modify (snd c)) \<longrightarrow>
      (\<forall>dt tm. length (confirmed_at dt tm (db (snd (run cs w)))) \<le> 1)) \<and>
   ((\<forall>c \<in> set bs. books d t (snd c)) \<longrightarrow> length (filter success (fst (run bs w))) \<le> 1) \<and>
   (books d t tc \<and> confirmed_at d t (db w) \<noteq> [] \<longrightarrow>
      executeTool now tc w =
        (\<lparr>success = False, e_message = None,
          e_error = Some ''Appointment slot already booked'', e_payload = NoPayload\<rparr>,
         w\<lparr>costTracker := costTracker w @
              [\<lparr>service = ''book_appointment'', cost = double (2 / 1000), unit = ''call''\<rparr>]\<rparr>))"
proof (intro conjI impI)
  assume "consistent (db w) \<and> (\<forall>dt tm. length (confirmed_at dt tm (db w)) \<le> 1) \<and>
      (\<forall>c \<in> set cs. \<not> single_field_modify (snd c))"
  then have "wf_store (db (snd (run cs w)))"
    by (intro wf_store_run) (simp_all add: wf_store_iff)
  then show "\<forall>dt tm. length (confirmed_at dt tm (db (snd (run cs w)))) \<le> 1"
    by (simp add: wf_store_iff)
next
  assume "\<forall>c \<in> set bs. books d t (snd c)"
  then show "length (filter success (fst (run bs w))) \<le> 1"
    by (rule run_at_most_one)
next
  assume "books d t tc \<and> confirmed_at d t (db w) \<noteq> []"
  then have "books d t tc" "list_ex (slot_taken (Some d) (Some t)) (appointments (db w))"
    by (simp_all add: confirmed_at_def list_ex_iff filter_empty_conv)
  from book_conflict [OF this] show "executeTool now tc w =
        (\<lparr>success = False, e_message = None,
          e_error = Some ''Appointment slot already booked'', e_payload = NoPayload\<rparr>,
         w\<lparr>costTracker := costTracker w @
              [\<lparr>service = ''book_appointment'', cost = double (2 / 1000), unit = ''call''\<rparr>]\<rparr>)"
    by (simp add: failure_def addCost_def)
qed

lemmas book_defs = booking_def dial_def no_args_def with_appointments_def ada_def bob_def
  executeTool_def tool_switch_def with_args_def await_def addCost_def ok_def failure_def
  createAppointment_def insert_appointment_def slot_taken_def unique_key_def truthy_def
  or_null_def varchar_ok_def varchar_def

lemma two_bookings:
  "map success (fst (run [(3, booking ''+15551234567'' ''2024-01-15'' ''09:00''),
                          (4, booking ''+15557654321'' ''2024-01-15'' ''09:00'')]
                       (with_appointments []))) = [True, False]"
  by (simp add: book_defs Let_def)

lemma booking_path_exclusive_example:
  "length (filter success (fst (run [(3, booking ''+15551234567'' ''2024-01-15'' ''09:00''),
                                    (4, booking ''+15557654321'' ''2024-01-15'' ''09:00'')]
                                 (with_appointments [])))) \<le> 1 \<and>
   map success (fst (run [(3, booking ''+15551234567'' ''2024-01-15'' ''09:00''),
                          (4, booking ''+15557654321'' ''2024-01-15'' ''09:00'')]
                       (with_appointments []))) = [True, False] \<and>
   length (confirmed_at ''2024-01-15'' ''09:00''
     (db (snd (run [(3, booking ''+15551234567'' ''2024-01-15'' ''09:00''),
                    (4, booking ''+15557654321'' ''2024-01-15'' ''09:00'')]
                 (with_appointments []))))) \<le> 1 \<and>
   e_error (fst (executeTool 4 (booking ''+15557654321'' ''2024-01-15'' ''09:00'')
       (with_appointments [visit 1 ''+15551234567'' ''2024-01-15'' ''09:00'' Confirmed])))
     = Some ''Appointment slot already booked''"
proof -
  let ?cs = "[(3::nat, booking ''+15551234567'' ''2024-01-15'' ''09:00''),
              (4, booking ''+15557654321'' ''2024-01-15'' ''09:00'')]"
  let ?w = "with_appointments []"
  let ?w1 = "with_appointments [visit 1 ''+15551234567'' ''2024-01-15'' ''09:00'' Confirmed]"
  have h1: "consistent (db ?w) \<and> (\<forall>dt tm. length (confirmed_at dt tm (db ?w)) \<le> 1) \<and>
      (\<forall>c \<in> set ?cs. \<not> single_field_modify (snd c))"
    by (simp add: consistent_def confirmed_at_def with_appointments_def single_field_modify_def
        booking_def)
  have h2: "\<forall>c \<in> set ?cs. books ''2024-01-15'' ''09:00'' (snd c)"
    by (simp add: books_def booking_def dial_def no_args_def)
  have h3: "books ''2024-01-15'' ''09:00'' (booking ''+15557654321'' ''2024-01-15'' ''09:00'') \<and>
      confirmed_at ''2024-01-15'' ''09:00'' (db ?w1) \<noteq> []"
    by (simp add: books_def booking_def dial_def no_args_def confirmed_at_def
        with_appointments_def visit_def slot_taken_def)
  note inst = booking_path_exclusive [of ?w ?cs ?cs "''2024-01-15''" "''09:00''"]
  note inst1 = booking_path_exclusive [of ?w1 "[]" "[]" "''2024-01-15''" "''09:00''"
      "booking ''+15557654321'' ''2024-01-15'' ''09:00''" 4]
  from inst [THEN conjunct1, THEN mp, OF h1]
    inst [THEN conjunct2, THEN conjunct1, THEN mp, OF h2]
    inst1 [THEN conjunct2, THEN conjunct2, THEN mp, OF h3]
    two_bookings
  show ?thesis
    by simp
qed

text \<open>
  Claim C1, at a failing input. The store has two users and no appointment. The first
  books 15 January 09:00, the second books 16 January 09:00, and the second then moves
  theirs with \<^verbatim>\<open>modify_appointment\<close> and \<^verbatim>\<open>new_date\<close> alone to 15 January. All three
  calls succeed, and the state reached has two confirmed appointments at 15 January
  09:00: the invariant of the claim does not hold at every reachable state.
\<close>

theorem double_booking_reachable:
  "map success (fst (run [(3, booking ''+15551234567'' ''2024-01-15'' ''09:00''),
                          (4, booking ''+15557654321'' ''2024-01-16'' ''09:00''),
                          (5, moving ''+15557654321'' 2 (Some ''2024-01-15'') None)]
                       (with_appointments []))) = [True, True, True] \<and>
   map (\<lambda>a. (a_id a, a_contact_number a, appointment_date a, appointment_time a, a_status a))
     (appointments (db (snd (run [(3, booking ''+15551234567'' ''2024-01-15'' ''09:00''),
                                  (4, booking ''+15557654321'' ''2024-01-16'' ''09:00''),
                                  (5, moving ''+15557654321'' 2 (Some ''2024-01-15'') None)]
                               (with_appointments [])))))
     = [(1, ''+15551234567'', ''2024-01-15'', ''09:00'', Confirmed),
        (2, ''+15557654321'', ''2024-01-15'', ''09:00'', Confirmed)] \<and>
   length (confirmed_at ''2024-01-15'' ''09:00''
     (db (snd (run [(3, booking ''+15551234567'' ''2024-01-15'' ''09:00''),
                    (4, booking ''+15557654321'' ''2024-01-16'' ''09:00''),
                    (5, moving ''+15557654321'' 2 (Some ''2024-01-15'') None)]
                 (with_appointments []))))) = 2"
  by code_simp

section \<open>Modification and cancellation\<close>

lemmas update_defs = cancelling_def moving_def dial_def no_args_def with_appointments_def
  visit_def ada_def bob_def executeTool_def tool_switch_def with_args_def await_def addCost_def
  ok_def failure_def cancelAppointment_def modifyAppointment_def update_appointment_def
  cancel_row_def modify_row_def targets_def slot_taken_def unique_key_def truthy_def

lemma modify_both_fields_conflict:
  assumes "truthy nd" "truthy nt"
    and "list_ex (\<lambda>a. slot_taken nd nt a \<and> a_id a \<noteq> i) (appointments d)"
  shows "modifyAppointment now (Some i) c nd nt d =
           (Inl (Error ''New appointment slot already booked''), d)"
  using assms by (simp add: modifyAppointment_def)

text \<open>
  Claim C2, at a failing input. Two contacts each hold a confirmed appointment at 09:00, on
  15 and on 16 January. The second contact moves theirs with \<^verbatim>\<open>new_date\<close> alone to
  15 January: no conflict check runs (it runs only when both fields are given, see
  \<open>modify_both_fields_conflict\<close>), the call succeeds, and two confirmed appointments
  hold 15 January 09:00.
\<close>

theorem modify_one_field_double_books:
  "executeTool 5 (moving ''+15557654321'' 2 (Some ''2024-01-15'') None)
       (with_appointments [visit 1 ''+15551234567'' ''2024-01-15'' ''09:00'' Confirmed,
                           visit 2 ''+15557654321'' ''2024-01-16'' ''09:00'' Confirmed])
   = (ok (Some ''Appointment modified successfully'') (AppointmentPayload 2 ''2024-01-15'' ''09:00''),
      \<lparr>db = \<lparr>users = [ada, bob],
          appointments = [visit 1 ''+15551234567'' ''2024-01-15'' ''09:00'' Confirmed,
             (visit 2 ''+15557654321'' ''2024-01-15'' ''09:00'' Confirmed)\<lparr>a_updated_at := 5\<rparr>],
          appointments_id_seq = 3, conversation_summaries = []\<rparr>,
        costTracker = [\<lparr>service = ''modify_appointment'', cost = double (2 / 1000), unit = ''call''\<rparr>]\<rparr>)"
  by (simp add: update_defs)

lemma cancel_not_targeted:
  assumes "\<not> list_ex (targets i c) (appointments d)"
  shows "cancelAppointment now i c d = (Inr None, d)"
proof -
  from assms have no: "\<forall>a \<in> set (appointments d). \<not> targets i c a"
    by (simp add: list_ex_iff)
  then have "find (targets i c) (appointments d) = None"
    by (simp add: find_None_iff)
  moreover from no
  have "map (\<lambda>a. if targets i c a then cancel_row now a else a) (appointments d) = appointments d"
    by (simp add: map_idI)
  ultimately show ?thesis
    using no by (simp add: cancelAppointment_def update_appointment_def list_ex_iff)
qed

text \<open>
  Claim C3, at a failing input. The \<^verbatim>\<open>UPDATE\<close> of cancelAppointment has no condition on
  the status. Cancelling an appointment of the caller that is already cancelled matches
  the row, rewrites it (\<open>updated_at\<close> changes) and reports success; the error
  \<^verbatim>\<open>Appointment not found or already cancelled\<close> is not raised. (For an appointment of
  another contact no row matches and nothing is written, see \<open>cancel_not_targeted\<close>.)
\<close>

theorem cancel_cancelled_succeeds:
  "executeTool 5 (cancelling ''+15551234567'' 1)
       (with_appointments [visit 1 ''+15551234567'' ''2024-01-15'' ''09:00'' Cancelled])
   = (ok (Some ''Appointment cancelled successfully'') (AppointmentPayload 1 ''2024-01-15'' ''09:00''),
      \<lparr>db = \<lparr>users = [ada, bob],
          appointments = [(visit 1 ''+15551234567'' ''2024-01-15'' ''09:00'' Cancelled)\<lparr>a_updated_at := 5\<rparr>],
          appointments_id_seq = 2, conversation_summaries = []\<rparr>,
        costTracker = [\<lparr>service = ''cancel_appointment'', cost = double (2 / 1000), unit = ''call''\<rparr>]\<rparr>)"
  by (simp add: update_defs)

text \<open>
  Claim C4 fails as stated: \<^verbatim>\<open>cancel_appointment\<close> by the owner sets a completed
  appointment to cancelled.
\<close>

theorem cancel_completed_counterexample:
  "map a_status (appointments (db (with_appointments
       [visit 1 ''+15551234567'' ''2024-01-15'' ''09:00'' Completed]))) = [Completed] \<and>
   map a_status (appointments (db (snd (executeTool 5 (cancelling ''+15551234567'' 1)
       (with_appointments [visit 1 ''+15551234567'' ''2024-01-15'' ''09:00'' Completed])))))
     = [Cancelled]"
  by (simp add: update_defs)

lemma nth_createAppointment:
  assumes "i < length (appointments d)"
  shows "i < length (appointments (snd (createAppointment now c dt tm st nt d))) \<and>
     appointments (snd (createAppointment now c dt tm st nt d)) ! i = appointments d ! i"
proof -
  obtain r d' where eq: "createAppointment now c dt tm st nt d = (r, d')"
    by (cases "createAppointment now c dt tm st nt d")
  from createAppointment_cases [OF eq] assms show ?thesis
    by (auto simp: eq nth_append)
qed

lemma nth_update_appointment:
  assumes "i < length (appointments d)"
  shows "i < length (appointments (snd (update_appointment f j c d))) \<and>
     (appointments (snd (update_appointment f j c d)) ! i = appointments d ! i \<or>
      targets j c (appointments d ! i) \<and>
      appointments (snd (update_appointment f j c d)) ! i = f (appointments d ! i))"
  using assms by (simp add: update_appointment_def)

lemma nth_modifyAppointment:
  assumes "i < length (appointments d)"
  shows "i < length (appointments (snd (modifyAppointment now j c nd nt d))) \<and>
     a_id (appointments (snd (modifyAppointment now j c nd nt d)) ! i) = a_id (appointments d ! i) \<and>
     a_status (appointments (snd (modifyAppointment now j c nd nt d)) ! i)
       = a_status (appointments d ! i)"
  using nth_update_appointment [OF assms, of "modify_row now nd nt" j c] assms
  by (auto simp: modifyAppointment_def modify_row_def)

lemma nth_cancelAppointment:
  assumes "i < length (appointments d)"
  shows "i < length (appointments (snd (cancelAppointment now j c d))) \<and>
     a_id (appointments (snd (cancelAppointment now j c d)) ! i) = a_id (appointments d ! i) \<and>
     (a_status (appointments (snd (cancelAppointment now j c d)) ! i)
        = a_status (appointments d ! i) \<or>
      targets j c (appointments d ! i) \<and>
      a_status (appointments (snd (cancelAppointment now j c d)) ! i) = Cancelled)"
  using nth_update_appointment [OF assms, of "cancel_row now" j c]
  by (auto simp: cancelAppointment_def cancel_row_def)

text \<open>
  Claim C4, amended. No dispatch removes an appointment or changes its id, and for an
  appointment whose status is completed the only status change a dispatch can make is
  that of \<^verbatim>\<open>cancel_appointment\<close> called with that appointment's id and its owner's
  contact number, which sets it to cancelled. So \<^verbatim>\<open>book_appointment\<close> and
  \<^verbatim>\<open>modify_appointment\<close> never change the status of a completed appointment, and
  \<^verbatim>\<open>cancel_appointment\<close> leaves it when it names another id or another contact.
\<close>

theorem completed_left_unless_cancelled:
  assumes "i < length (appointments (db w))" "a_status (appointments (db w) ! i) = Completed"
  shows "i < length (appointments (db (snd (executeTool now tc w)))) \<and>
     a_id (appointments (db (snd (executeTool now tc w))) ! i) = a_id (appointments (db w) ! i) \<and>
     (a_status (appointments (db (snd (executeTool now tc w))) ! i) = Completed \<or>
      tc_name tc = ''cancel_appointment'' \<and>
      (\<exists>a. tc_arguments tc = Some a \<and>
           targets (arg_appointment_id a) (arg_contact_number a) (appointments (db w) ! i)) \<and>
      a_status (appointments (db (snd (executeTool now tc w))) ! i) = Cancelled)"
proof (cases "tc_arguments tc")
  case None
  with assms show ?thesis by (simp add: db_executeTool)
next
  case (Some a)
  note c = nth_createAppointment [OF assms(1), of now "arg_contact_number a"
      "arg_appointment_date a" "arg_appointment_time a" "arg_service_type a" "arg_notes a"]
  note m = nth_modifyAppointment [OF assms(1), of now "arg_appointment_id a"
      "arg_contact_number a" "arg_new_date a" "arg_new_time a"]
  note x = nth_cancelAppointment [OF assms(1), of now "arg_appointment_id a" "arg_contact_number a"]
  from assms Some c m x show ?thesis
    by (auto simp: db_executeTool)
qed

theorem completed_left_unless_cancelled_witness:
  "a_status (appointments (db (snd (executeTool 5
       (moving ''+15551234567'' 1 (Some ''2024-01-16'') (Some ''10:00''))
       (with_appointments [visit 1 ''+15551234567'' ''2024-01-15'' ''09:00'' Completed]))))
     ! 0) = Completed \<and>
   a_status (appointments (db (snd (executeTool 5 (cancelling ''+15557654321'' 1)
       (with_appointments [visit 1 ''+15551234567'' ''2024-01-15'' ''09:00'' Completed]))))
     ! 0) = Completed"
proof -
  let ?w = "with_appointments [visit 1 ''+15551234567'' ''2024-01-15'' ''09:00'' Completed]"
  have h: "0 < length (appointments (db ?w))" "a_status (appointments (db ?w) ! 0) = Completed"
    by (simp_all add: with_appointments_def visit_def)
  from completed_left_unless_cancelled [OF h, of 5 "moving ''+15551234567'' 1 (Some ''2024-01-16'') (Some ''10:00'')"]
    completed_left_unless_cancelled [OF h, of 5 "cancelling ''+15557654321'' 1"]
  show ?thesis
    by (simp add: moving_def cancelling_def dial_def no_args_def targets_def
        with_appointments_def visit_def)
qed

section \<open>Cost ledger and envelope\<close>

lemma tool_name_cases [case_names identify fetch book retrieve cancel modify finish unknown]:
  obtains "name = ''identify_user''" | "name = ''fetch_slots''" | "name = ''book_appointment''"
  | "name = ''retrieve_appointments''" | "name = ''cancel_appointment''"
  | "name = ''modify_appointment''" | "name = ''end_conversation''"
  | "name \<notin> set toolDefinitions"
proof (cases "name \<in> set toolDefinitions")
  case True
  then have "name = ''identify_user'' \<or> name = ''fetch_slots'' \<or> name = ''book_appointment'' \<or>
      name = ''retrieve_appointments'' \<or> name = ''cancel_appointment'' \<or>
      name = ''modify_appointment'' \<or> name = ''end_conversation''"
    by (simp only: toolDefinitions_def list.set insert_iff empty_iff simp_thms)
  then show thesis
    by (elim disjE) (rule that, assumption)+
next
  case False
  then show thesis by (rule that(8))
qed

lemma costTracker_await [simp]: "costTracker (snd (await k r w)) = costTracker w"
  by (simp add: await_def split: sum.splits)

lemma fst_await: "fst (await k r w) = (case fst r of Inl e \<Rightarrow> Inl e | Inr x \<Rightarrow> k x)"
  by (simp add: await_def split: sum.splits)

lemma costTracker_with_args:
  "(\<And>a. costTracker (snd (f a)) = costTracker w) \<Longrightarrow> costTracker (snd (with_args p x f w)) = costTracker w"
  by (simp add: with_args_def split: option.splits)

lemma costTracker_tool_switch:
  "costTracker (snd (tool_switch now tc w)) =
     (if tc_name tc \<in> set toolDefinitions
      then costTracker w @ [\<lparr>service = tc_name tc, cost = price (tc_name tc), unit = ''call''\<rparr>]
      else costTracker w)"
proof (cases "tc_name tc" rule: tool_name_cases)
  case unknown
  then show ?thesis
    by (auto simp: tool_switch_def toolDefinitions_def)
qed (simp_all add: tool_switch_def toolDefinitions_def price_def costTracker_with_args Let_def,
     simp_all add: addCost_def)

lemma getTotalCost_fold: "getTotalCost w = foldl js_add (Finite 0) (map cost (costTracker w))"
  by (simp add: getTotalCost_def foldl_map)

lemma getTotalCost_append:
  "costTracker w' = costTracker w @ [e] \<Longrightarrow> getTotalCost w' = js_add (getTotalCost w) (cost e)"
  by (simp add: getTotalCost_def)

lemma foldl_js_add_exact:
  assumes "\<forall>k \<le> length vs. double (sum_list (take k vs)) = Finite (sum_list (take k vs))"
  shows "foldl js_add (Finite 0) (map Finite vs) = Finite (sum_list vs)"
  using assms
proof (induction vs rule: rev_induct)
  case Nil
  then show ?case by simp
next
  case (snoc v vs)
  have "\<forall>k \<le> length vs. double (sum_list (take k vs)) = Finite (sum_list (take k vs))"
  proof (intro allI impI)
    fix k assume k: "k \<le> length vs"
    then have "k \<le> length (vs @ [v])"
      by simp
    with snoc.prems have "double (sum_list (take k (vs @ [v]))) = Finite (sum_list (take k (vs @ [v])))"
      by blast
    with k show "double (sum_list (take k vs)) = Finite (sum_list (take k vs))"
      by simp
  qed
  then have "foldl js_add (Finite 0) (map Finite vs) = Finite (sum_list vs)"
    by (rule snoc.IH)
  moreover have "length (vs @ [v]) \<le> length (vs @ [v])"
    by simp
  with snoc.prems
  have "double (sum_list (take (length (vs @ [v])) (vs @ [v])))
          = Finite (sum_list (take (length (vs @ [v])) (vs @ [v])))"
    by blast
  then have "double (sum_list vs + v) = Finite (sum_list vs + v)"
    by simp
  ultimately show ?case
    by simp
qed

text \<open>
  Claim C7 fails as stated: the total is a sum of doubles, rounded after every addition.
  Ten dispatches of \<^verbatim>\<open>end_conversation\<close> append ten entries of cost \<^verbatim>\<open>0.001\<close>, and
  \<^verbatim>\<open>getTotalCost()\<close> is \<^verbatim>\<open>0.010000000000000002\<close>, which is not the arithmetic sum of
  the ten costs.
\<close>

theorem total_of_ten_counterexample:
  "map cost (costTracker (snd (run (replicate 10 (5, ending)) (with_appointments []))))
     = replicate 10 (Finite (1152921504606847 / 1152921504606846976)) \<and>
   getTotalCost (snd (run (replicate 10 (5, ending)) (with_appointments [])))
     = Finite (1441151880758559 / 144115188075855872) \<and>
   sum_list (replicate 10 (1152921504606847 / 1152921504606846976 :: rat))
     \<noteq> 1441151880758559 / 144115188075855872"
  by code_simp

text \<open>
  Claim C7, amended. Dispatching a tool of the catalog, whatever the arguments and
  whether it succeeds or fails, appends exactly one entry to the cost ledger, tagged
  with the tool's name; the total is the sum of the costs taken from left to right in
  double arithmetic, so after the dispatch it is the total before plus the cost of the
  new entry, rounded to a double; and the total is the arithmetic sum of the costs
  whenever the costs are finite and no sum of the first \<open>k\<close> of them needs rounding.
\<close>

theorem dispatch_bills_once:
  "(tc_name tc \<in> set toolDefinitions \<longrightarrow>
      (\<exists>e. costTracker (snd (executeTool now tc w)) = costTracker w @ [e] \<and>
           service e = tc_name tc \<and>
           getTotalCost (snd (executeTool now tc w)) = js_add (getTotalCost w) (cost e))) \<and>
   (map cost (costTracker w) = map Finite vs \<and>
    (\<forall>k \<le> length vs. double (sum_list (take k vs)) = Finite (sum_list (take k vs))) \<longrightarrow>
      getTotalCost w = Finite (sum_list vs))"
proof (intro conjI impI)
  assume "tc_name tc \<in> set toolDefinitions"
  then have "costTracker (snd (executeTool now tc w)) =
      costTracker w @ [\<lparr>service = tc_name tc, cost = price (tc_name tc), unit = ''call''\<rparr>]"
    by (simp add: snd_executeTool costTracker_tool_switch)
  then show "\<exists>e. costTracker (snd (executeTool now tc w)) = costTracker w @ [e] \<and>
           service e = tc_name tc \<and>
           getTotalCost (snd (executeTool now tc w)) = js_add (getTotalCost w) (cost e)"
    by (simp add: getTotalCost_append)
next
  assume "map cost (costTracker w) = map Finite vs \<and>
    (\<forall>k \<le> length vs. double (sum_list (take k vs)) = Finite (sum_list (take k vs)))"
  then show "getTotalCost w = Finite (sum_list vs)"
    by (simp add: getTotalCost_fold foldl_js_add_exact)
qed

theorem dispatch_bills_once_witness:
  "map service (costTracker (snd (executeTool 5 (cancelling ''+15557654321'' 9) (with_appointments []))))
     = [''cancel_appointment''] \<and>
   \<not> success (fst (executeTool 5 (cancelling ''+15557654321'' 9) (with_appointments []))) \<and>
   getTotalCost (snd (executeTool 5 (cancelling ''+15557654321'' 9) (with_appointments [])))
     = double (2 / 1000) \<and>
   getTotalCost (snd (run [(5, ending), (6, ending)] (with_appointments []))) = double (2 / 1000)"
proof -
  let ?w = "with_appointments []"
  let ?w2 = "snd (run [(5, ending), (6, ending)] ?w)"
  let ?d = "1152921504606847 / 1152921504606846976 :: rat"
  have h: "tc_name (cancelling ''+15557654321'' 9) \<in> set toolDefinitions"
    by (simp add: cancelling_def toolDefinitions_def)
  have f: "\<not> success (fst (executeTool 5 (cancelling ''+15557654321'' 9) ?w))"
    by (simp add: update_defs)
  have c: "cost e = double (2 / 1000)"
    if "costTracker (snd (executeTool 5 (cancelling ''+15557654321'' 9) ?w)) = [e]" for e
    using that by (auto simp: update_defs)
  have z: "costTracker ?w = []" "getTotalCost ?w = Finite 0"
    by (simp_all add: with_appointments_def getTotalCost_def)
  have two: "double (2 / 1000) = Finite (2 * ?d)" "js_add (Finite 0) (double (2 / 1000)) = double (2 / 1000)"
    by code_simp+
  from dispatch_bills_once [of "cancelling ''+15557654321'' 9" 5 ?w, THEN conjunct1, THEN mp, OF h]
  obtain e where e: "costTracker (snd (executeTool 5 (cancelling ''+15557654321'' 9) ?w)) = [e]"
    "service e = ''cancel_appointment''"
    "getTotalCost (snd (executeTool 5 (cancelling ''+15557654321'' 9) ?w))
       = js_add (Finite 0) (cost e)"
    by (auto simp: z cancelling_def)
  have costs: "map cost (costTracker ?w2) = map Finite [?d, ?d]"
    by code_simp
  have exact: "\<forall>k \<le> length [?d, ?d]. double (sum_list (take k [?d, ?d])) = Finite (sum_list (take k [?d, ?d]))"
  proof (intro allI impI)
    fix k :: nat assume "k \<le> length [?d, ?d]"
    then have "k = 0 \<or> k = 1 \<or> k = 2"
      by auto
    then show "double (sum_list (take k [?d, ?d])) = Finite (sum_list (take k [?d, ?d]))"
      by (elim disjE; hypsubst; code_simp)
  qed
  from dispatch_bills_once [where w = ?w2 and vs = "[?d, ?d]", THEN conjunct2, THEN mp,
      OF conjI [OF costs exact]]
  have "getTotalCost ?w2 = Finite (2 * ?d)"
    by simp
  with e f c [of e] two show ?thesis
    by simp
qed

lemma tool_switch_returns_success:
  assumes "fst (tool_switch now tc w) = Inr r"
  shows "success r \<and> e_error r = None"
proof (cases "tc_name tc" rule: tool_name_cases)
  case unknown
  with assms show ?thesis
    by (auto simp: tool_switch_def toolDefinitions_def)
qed (use assms in \<open>auto simp: tool_switch_def with_args_def fst_await ok_def Let_def
       split: option.splits sum.splits\<close>)

lemma tool_switch_unknown:
  "tc_name tc \<notin> set toolDefinitions \<Longrightarrow>
     tool_switch now tc w = (Inl (Error (''Unknown tool: '' @ tc_name tc)), w)"
  by (auto simp: tool_switch_def toolDefinitions_def)

text \<open>
  Claim C6. Whatever the name and the argument bag, executeTool returns an envelope with
  a success flag. Whatever is thrown inside the dispatch (by a query, by the database,
  by reading a \<^verbatim>\<open>null\<close> argument bag, by an unknown name) is caught and becomes
  \<^verbatim>\<open>{success: false, error: message}\<close>; what the dispatch returns is returned with
  \<^verbatim>\<open>success: true\<close>; the flag is false exactly when an error message is present. An
  unknown name is caught as well and changes nothing.
\<close>

theorem executeTool_uniform_envelope:
  "(\<forall>e w'. tool_switch now tc w = (Inl e, w') \<longrightarrow>
      executeTool now tc w =
        (\<lparr>success = False, e_message = None,
          e_error = Some (if message e = [] then ''Unknown error'' else message e),
          e_payload = NoPayload\<rparr>, w')) \<and>
   (\<forall>r w'. tool_switch now tc w = (Inr r, w') \<longrightarrow>
      executeTool now tc w = (r, w') \<and> success r) \<and>
   success (fst (executeTool now tc w)) = (e_error (fst (executeTool now tc w)) = None) \<and>
   (tc_name tc \<notin> set toolDefinitions \<longrightarrow>
      executeTool now tc w =
        (\<lparr>success = False, e_message = None,
          e_error = Some (''Unknown tool: '' @ tc_name tc), e_payload = NoPayload\<rparr>, w))"
proof (intro conjI allI impI)
  fix e w' assume "tool_switch now tc w = (Inl e, w')"
  then show "executeTool now tc w =
        (\<lparr>success = False, e_message = None,
          e_error = Some (if message e = [] then ''Unknown error'' else message e),
          e_payload = NoPayload\<rparr>, w')"
    by (simp add: executeTool_def failure_def)
next
  fix r w' assume r: "tool_switch now tc w = (Inr r, w')"
  then show "executeTool now tc w = (r, w')"
    by (simp add: executeTool_def)
  from r show "success r"
    using tool_switch_returns_success [of now tc w r] by simp
next
  obtain x w' where eq: "tool_switch now tc w = (x, w')"
    by (cases "tool_switch now tc w")
  show "success (fst (executeTool now tc w)) = (e_error (fst (executeTool now tc w)) = None)"
  proof (cases x)
    case (Inl e)
    then show ?thesis by (simp add: executeTool_def eq failure_def)
  next
    case (Inr r)
    with tool_switch_returns_success [of now tc w r] show ?thesis
      by (simp add: executeTool_def eq)
  qed
next
  assume "tc_name tc \<notin> set toolDefinitions"
  then show "executeTool now tc w =
        (\<lparr>success = False, e_message = None,
          e_error = Some (''Unknown tool: '' @ tc_name tc), e_payload = NoPayload\<rparr>, w)"
    by (simp add: executeTool_def tool_switch_unknown failure_def)
qed

theorem executeTool_uniform_envelope_witness:
  "executeTool 5 (cancelling ''+15557654321'' 9) (with_appointments []) =
     (\<lparr>success = False, e_message = None,
       e_error = Some ''Appointment not found or already cancelled'', e_payload = NoPayload\<rparr>,
      addCost ''cancel_appointment'' (double (2 / 1000)) ''call'' (with_appointments [])) \<and>
   executeTool 5 \<lparr>tc_name = ''drop_tables'', tc_arguments = None\<rparr> (with_appointments []) =
     (\<lparr>success = False, e_message = None,
       e_error = Some ''Unknown tool: drop_tables'', e_payload = NoPayload\<rparr>,
      with_appointments []) \<and>
   success (fst (executeTool 5 \<lparr>tc_name = ''end_conversation'', tc_arguments = None\<rparr>
      (with_appointments [])))"
proof -
  have t1: "tool_switch 5 (cancelling ''+15557654321'' 9) (with_appointments []) =
      (Inl (Error ''Appointment not found or already cancelled''),
       addCost ''cancel_appointment'' (double (2 / 1000)) ''call'' (with_appointments []))"
    by (simp add: update_defs)
  have t2: "tc_name \<lparr>tc_name = ''drop_tables'', tc_arguments = None\<rparr> \<notin> set toolDefinitions"
    by (simp add: toolDefinitions_def)
  have t3: "tool_switch 5 \<lparr>tc_name = ''end_conversation'', tc_arguments = None\<rparr> (with_appointments []) =
      (Inr (ok (Some ''Conversation ended'') NoPayload),
       addCost ''end_conversation'' (double (1 / 1000)) ''call'' (with_appointments []))"
    by (simp add: tool_switch_def)
  from executeTool_uniform_envelope [of 5 "cancelling ''+15557654321'' 9" "with_appointments []",
        THEN conjunct1, rule_format, OF t1]
    executeTool_uniform_envelope [of 5 "\<lparr>tc_name = ''drop_tables'', tc_arguments = None\<rparr>"
        "with_appointments []", THEN conjunct2, THEN conjunct2, THEN conjunct2, THEN mp, OF t2]
    executeTool_uniform_envelope [of 5 "\<lparr>tc_name = ''end_conversation'', tc_arguments = None\<rparr>"
        "with_appointments []", THEN conjunct2, THEN conjunct1, rule_format, OF t3]
  show ?thesis
    by simp
qed

section \<open>The finalizer and the end of a session\<close>

lemma generateSummary_rejected:
  "fst (generateSummary js Rejected ms c sid bs w)
     = ''Summary generation failed. Conversation details saved.'' \<and>
   db (snd (generateSummary js Rejected ms c sid bs w)) = db w"
  by (simp add: generateSummary_def Let_def)

lemma generateAndEmitSummary_no_contact:
  "\<not> truthy (contactNumber (state ag)) \<Longrightarrow> generateAndEmitSummary js (ag, rt) = (ag, rt)"
  by (simp add: generateAndEmitSummary_def)

text \<open>
  Claim C9, at a failing input. A session whose contact number is resolved ends while
  the summarization model rejects the request. The finalizer does not fail and hands
  out the placeholder, whose text says the details were saved; but the
  \<^verbatim>\<open>INSERT\<close> of the summary sits inside the same \<^verbatim>\<open>try\<close> after the request and is
  skipped: no summary record is stored. (Without a contact number the finalizer does
  nothing, see \<open>generateAndEmitSummary_no_contact\<close>.)
\<close>

theorem summarizer_failure_persists_nothing:
  "emitted (fst (generateAndEmitSummary plain_json
       (identified ''session-1'' ''+15551234567'',
        \<lparr>store = one_user, chat = [], summarizer = [Rejected]\<rparr>)))
     = [SummaryEvent ''Summary generation failed. Conversation details saved.'' [] []] \<and>
   conversation_summaries (db (store (snd (generateAndEmitSummary plain_json
       (identified ''session-1'' ''+15551234567'',
        \<lparr>store = one_user, chat = [], summarizer = [Rejected]\<rparr>)))))
     = []"
  by (simp add: generateAndEmitSummary_def identified_def AppointmentAgent_def truthy_def
      case_prod_beta generateSummary_rejected one_user_def Let_def)

lemma state_generateAndEmitSummary [simp]:
  "state (fst (generateAndEmitSummary js ar)) = state (fst ar)"
  by (simp add: generateAndEmitSummary_def Let_def)

lemma toolCalls_fold_result [simp]:
  "toolCalls (state (fst (fold_result js name te r ar))) = toolCalls (state (fst ar))"
  by (simp add: fold_result_def Let_def)

lemma conversationEnded_fold_result [simp]:
  "conversationEnded (state (fst (fold_result js name te r ar))) =
     (conversationEnded (state (fst ar)) \<or> name = ''end_conversation'')"
  by (simp add: fold_result_def Let_def)

















end
